theory Spec2Isabelle
  imports Complex_Main "HOL-Library.Sublist"
begin

section \<open>The host application: documents, objects, console\<close>

text \<open>
  The example script \<^verbatim>\<open>femexamples/frequency_cylindrical_shell.py\<close> builds its model by
  calling into the host application. The host is not part of the script; this section is a
  small store model of the part of it the script talks to: a document owning named objects
  with properties, and a log of the requests the script issues (object creation, removal,
  recomputation, group membership, meshing, console output), in the order they are issued.
  How the host names a new object is the host's own convention; it is a parameter here, and
  nothing is fixed about it.
\<close>

datatype shape = NullShape | CylinderSolid int int | CylinderSide int int | CircleFace int

datatype pyval =
    VStr string
  | VBool bool
  | VInt int
  | VFloat rat
  | VDict "(string \<times> string) list"
  | VLinkSub "(nat \<times> string) list"
  | VLink nat
  | VLinkList "nat list"
  | VShape shape

datatype objkind =
    DocObject string
  | TextDocument
  | ShapeFeature
  | FemAnalysis
  | FemSolverCalculix
  | FemSolverCcxTools
  | FemMaterialSolid
  | FemConstraintDisplacement
  | FemElementGeometry2D
  | FemMeshGmsh

record dobj =
  Id :: nat
  Name :: string
  Kind :: objkind
  Props :: "(string \<times> pyval) list"

record document =
  DocName :: string
  objects :: "dobj list"
  last_id :: nat

datatype console_msg = Warning string | Message string

datatype call =
    NewDocument
  | Created objkind nat
  | SetAttr nat string pyval
  | Recomputed
  | ViewAxonometric
  | FitAll
  | Downgraded nat
  | RemoveObject string
  | GroupAdd nat nat
  | CreateMesh nat
  | Printed console_msg

text \<open>
  A naming convention gives the name of a new object, from the names the document holds and
  the name requested. The host carries its convention in its state; no request changes it.
\<close>

type_synonym naming = "string list \<Rightarrow> string \<Rightarrow> string"

record host =
  doc :: document
  calls :: "call list"
  naming :: naming

datatype error =
    UnboundLocalError string
  | AttributeError string
  | IndexError
  | LookupFailure string

datatype 'a outcome = Returned 'a host | Raised error host

fun and_then :: "'a outcome \<Rightarrow> ('a \<Rightarrow> host \<Rightarrow> 'b outcome) \<Rightarrow> 'b outcome" where
  "and_then (Returned a h) f = f a h"
| "and_then (Raised e h) f = Raised e h"

fun host_of :: "'a outcome \<Rightarrow> host" where
  "host_of (Returned a h) = h"
| "host_of (Raised e h) = h"

fun returned :: "'a outcome \<Rightarrow> bool" where
  "returned (Returned a h) = True"
| "returned (Raised e h) = False"

text \<open>
  What the script cannot influence is a parameter of the model: whether a GUI is up, the
  status text the external mesher returns, the header text the example manager builds
  from the information dictionary, and the convention by which the host names new objects.
\<close>

datatype info = S string | L "string list"

record env =
  GuiUp :: bool
  create_mesh_status :: string
  get_header :: "(string \<times> info) list \<Rightarrow> string"
  auto_name :: naming

subsection \<open>Python dictionaries and object properties\<close>

fun setitem :: "('k \<times> 'v) list \<Rightarrow> 'k \<Rightarrow> 'v \<Rightarrow> ('k \<times> 'v) list" where
  "setitem [] k v = [(k, v)]"
| "setitem ((k', v') # kvs) k v =
     (if k' = k then (k, v) # kvs else (k', v') # setitem kvs k v)"

definition log_call :: "call \<Rightarrow> host \<Rightarrow> host" where
  "log_call c h = h\<lparr>calls := calls h @ [c]\<rparr>"

definition set_objects :: "dobj list \<Rightarrow> host \<Rightarrow> host" where
  "set_objects os h = h\<lparr>doc := (doc h)\<lparr>objects := os\<rparr>\<rparr>"

definition find_id :: "host \<Rightarrow> nat \<Rightarrow> dobj option" where
  \<comment> \<open>the object a Python reference points to\<close>
  "find_id h i = find (\<lambda>ob. Id ob = i) (objects (doc h))"

definition lookup_name :: "host \<Rightarrow> string \<Rightarrow> nat option" where
  \<comment> \<open>Modelled from the spec: the object a name of the document resolves to (the newest
      one, should the convention of the host have given the name twice)\<close>
  "lookup_name h n = map_option Id (find (\<lambda>ob. Name ob = n) (objects (doc h)))"

definition getprop :: "host \<Rightarrow> nat \<Rightarrow> string \<Rightarrow> pyval option" where
  "getprop h i p = (case find_id h i of None \<Rightarrow> None | Some ob \<Rightarrow> map_of (Props ob) p)"

definition kind_of :: "host \<Rightarrow> nat \<Rightarrow> objkind option" where
  "kind_of h i = map_option Kind (find_id h i)"

definition set_prop :: "nat \<Rightarrow> string \<Rightarrow> pyval \<Rightarrow> dobj \<Rightarrow> dobj" where
  "set_prop i p v ob = (if Id ob = i then ob\<lparr>Props := setitem (Props ob) p v\<rparr> else ob)"

definition store_prop :: "nat \<Rightarrow> string \<Rightarrow> pyval \<Rightarrow> host \<Rightarrow> host" where
  \<comment> \<open>Modelled from the spec: the host stores a property value in an object\<close>
  "store_prop i p v h = set_objects (map (set_prop i p v) (objects (doc h))) h"

definition setattr :: "nat \<Rightarrow> string \<Rightarrow> pyval \<Rightarrow> host \<Rightarrow> host" where
  \<comment> \<open>\<^verbatim>\<open>obj.p = v\<close>: attribute assignment on the object the variable refers to\<close>
  "setattr i p v h = store_prop i p v (log_call (SetAttr i p v) h)"

subsection \<open>Object creation and naming\<close>

fun max_id :: "dobj list \<Rightarrow> nat" where
  "max_id [] = 0"
| "max_id (ob # obs) = max (Id ob) (max_id obs)"

definition new_object :: "objkind \<Rightarrow> string \<Rightarrow> (string \<times> pyval) list \<Rightarrow> host \<Rightarrow> nat \<times> host" where
  \<comment> \<open>Modelled from the spec: the host document API's object creation. Every object gets an
      identifier no object of the document has or had, and the name the host's convention
      makes of the name requested; the newest object is at the head of the list.\<close>
  "new_object k n ps h =
     (let d = doc h;
          i = Suc (max (last_id d) (max_id (objects d)));
          ob = \<lparr>Id = i, Name = naming h (map Name (objects d)) n, Kind = k, Props = ps\<rparr>
      in (i, log_call (Created k i) (h\<lparr>doc := d\<lparr>objects := ob # objects d, last_id := i\<rparr>\<rparr>)))"

definition doc_addObject :: "string \<Rightarrow> string \<Rightarrow> host \<Rightarrow> nat \<times> host" where
  \<comment> \<open>Modelled from the spec: \<^verbatim>\<open>doc.addObject(type, name)\<close>; the new object has no shape
      before the document is recomputed.\<close>
  "doc_addObject ty n h = new_object (DocObject ty) n [(''Shape'', VShape NullShape)] h"

definition doc_removeObject :: "string \<Rightarrow> host \<Rightarrow> unit outcome" where
  \<comment> \<open>Modelled from the spec: \<^verbatim>\<open>doc.removeObject(name)\<close>; a name the document does not hold
      is a lookup failure raised by the document store.\<close>
  "doc_removeObject n h =
     (let h' = log_call (RemoveObject n) h in
      case lookup_name h' n of
        None \<Rightarrow> Raised (LookupFailure n) h'
      | Some i \<Rightarrow> Returned () (set_objects (filter (\<lambda>ob. Name ob \<noteq> n) (objects (doc h'))) h'))"

definition doc_getattr :: "string \<Rightarrow> host \<Rightarrow> nat outcome" where
  \<comment> \<open>Modelled from the spec: \<^verbatim>\<open>doc.Name\<close> is the object of that name, an AttributeError
      when there is none.\<close>
  "doc_getattr n h =
     (case lookup_name h n of None \<Rightarrow> Raised (AttributeError n) h | Some i \<Rightarrow> Returned i h)"

fun recompute_obj :: "dobj \<Rightarrow> dobj" where
  "recompute_obj ob =
     (if Kind ob = DocObject ''Part::Cylinder'' then
        (case (map_of (Props ob) ''Radius'', map_of (Props ob) ''Height'') of
           (Some (VInt r), Some (VInt ht)) \<Rightarrow>
              ob\<lparr>Props := setitem (Props ob) ''Shape'' (VShape (CylinderSolid r ht))\<rparr>
         | _ \<Rightarrow> ob)
      else ob)"

definition doc_recompute :: "host \<Rightarrow> host" where
  \<comment> \<open>Modelled from the spec: \<^verbatim>\<open>doc.recompute()\<close> evaluates the dependency graph; here, the
      shape of every cylinder primitive from its radius and height.\<close>
  "doc_recompute h = log_call Recomputed (set_objects (map recompute_obj (objects (doc h))) h)"

definition shape_of :: "dobj \<Rightarrow> shape" where
  "shape_of ob = (case map_of (Props ob) ''Shape'' of Some (VShape s) \<Rightarrow> s | _ \<Rightarrow> NullShape)"

fun boundary_faces :: "shape \<Rightarrow> shape list" where
  "boundary_faces (CylinderSolid r ht) = [CylinderSide r ht, CircleFace r, CircleFace r]"
| "boundary_faces s = []"

fun add_faces :: "shape list \<Rightarrow> host \<Rightarrow> host" where
  "add_faces [] h = h"
| "add_faces (f # fs) h =
     add_faces fs (snd (new_object ShapeFeature ''Face'' [(''Shape'', VShape f)] h))"

definition Draft_downgrade :: "nat \<Rightarrow> bool \<Rightarrow> host \<Rightarrow> host" where
  \<comment> \<open>Modelled from the spec: the external downgrade operation decomposes a solid into its
      boundary faces, each a new object requested under the name \<^verbatim>\<open>Face\<close> and named by the
      host, and deletes the original solid when asked to. An object that is no solid is left
      alone.\<close>
  "Draft_downgrade i delete h =
     (let h1 = log_call (Downgraded i) h in
      case find_id h1 i of
        None \<Rightarrow> h1
      | Some ob \<Rightarrow>
          (case boundary_faces (shape_of ob) of
             [] \<Rightarrow> h1
           | fs \<Rightarrow>
               (let h2 = add_faces fs h1 in
                if delete then set_objects (filter (\<lambda>ob. Id ob \<noteq> i) (objects (doc h2))) h2
                else h2)))"

fun is_face_shape :: "shape \<Rightarrow> bool" where
  "is_face_shape (CylinderSide r ht) = True"
| "is_face_shape (CircleFace r) = True"
| "is_face_shape s = False"

definition face_objects :: "host \<Rightarrow> dobj list" where
  "face_objects h = filter (\<lambda>ob. is_face_shape (shape_of ob)) (objects (doc h))"

subsection \<open>The FEM object factories and the analysis group\<close>

text \<open>
  The \<^verbatim>\<open>ObjectsFem\<close> factories create one document object each.
\<close>

definition makeAnalysis :: "string \<Rightarrow> host \<Rightarrow> nat \<times> host" where
  \<comment> \<open>Modelled from the spec: the analysis container, with no members yet\<close>
  "makeAnalysis n h = new_object FemAnalysis n [(''Group'', VLinkList [])] h"

definition makeSolverCalculix :: "string \<Rightarrow> host \<Rightarrow> nat \<times> host" where
  \<comment> \<open>Modelled from the spec: a solver object, parameters not yet set\<close>
  "makeSolverCalculix n h = new_object FemSolverCalculix n [] h"

definition makeSolverCalculixCcxTools :: "string \<Rightarrow> host \<Rightarrow> nat \<times> host" where
  \<comment> \<open>Modelled from the spec: a solver object, parameters not yet set\<close>
  "makeSolverCalculixCcxTools n h = new_object FemSolverCcxTools n [] h"

definition makeMaterialSolid :: "string \<Rightarrow> host \<Rightarrow> nat \<times> host" where
  \<comment> \<open>Modelled from the spec: a material object, its property mapping empty\<close>
  "makeMaterialSolid n h = new_object FemMaterialSolid n [(''Material'', VDict [])] h"

definition makeConstraintDisplacement :: "string \<Rightarrow> host \<Rightarrow> nat \<times> host" where
  \<comment> \<open>Modelled from the spec: a displacement constraint, nothing set\<close>
  "makeConstraintDisplacement n h = new_object FemConstraintDisplacement n [] h"

definition makeElementGeometry2D :: "pyval \<Rightarrow> host \<Rightarrow> nat \<times> host" where
  \<comment> \<open>Modelled from the spec: the shell-thickness object, created with the scalar thickness
      it is given, under the factory's own name.\<close>
  "makeElementGeometry2D thickness h =
     new_object FemElementGeometry2D ''ElementGeometry2D'' [(''Thickness'', thickness)] h"

definition makeMeshGmsh :: "string \<Rightarrow> host \<Rightarrow> nat \<times> host" where
  \<comment> \<open>Modelled from the spec: a mesh object, nothing set\<close>
  "makeMeshGmsh n h = new_object FemMeshGmsh n [] h"

definition group_of :: "host \<Rightarrow> nat \<Rightarrow> nat list" where
  \<comment> \<open>the members of an analysis\<close>
  "group_of h a = (case getprop h a ''Group'' of Some (VLinkList g) \<Rightarrow> g | _ \<Rightarrow> [])"

definition analysis_addObject :: "nat \<Rightarrow> nat \<Rightarrow> host \<Rightarrow> nat list \<times> host" where
  \<comment> \<open>Modelled from the spec: \<^verbatim>\<open>analysis.addObject(obj)\<close> attaches a member to the analysis;
      the members are a set, so an object that is a member already is not added again. The
      call returns the list of the objects it added.\<close>
  "analysis_addObject a i h =
     (let h' = log_call (GroupAdd a i) h; g = group_of h' a in
      if i \<in> set g then ([], h')
      else ([i], store_prop a ''Group'' (VLinkList (g @ [i])) h'))"

definition create_mesh :: "env \<Rightarrow> nat \<Rightarrow> host \<Rightarrow> string \<times> host" where
  \<comment> \<open>Modelled from the spec: \<^verbatim>\<open>GmshTools(femmesh_obj).create_mesh()\<close>, the external mesher;
      its mesh data is opaque, its status text is whatever the mesher reports.\<close>
  "create_mesh e m h = (create_mesh_status e, log_call (CreateMesh m) h)"

definition PrintWarning :: "string \<Rightarrow> host \<Rightarrow> host" where
  \<comment> \<open>Modelled from the spec: \<^verbatim>\<open>FreeCAD.Console.PrintWarning\<close>\<close>
  "PrintWarning s h = log_call (Printed (Warning s)) h"

definition PrintMessage :: "string \<Rightarrow> host \<Rightarrow> host" where
  \<comment> \<open>Modelled from the spec: \<^verbatim>\<open>FreeCAD.Console.PrintMessage\<close>\<close>
  "PrintMessage s h = log_call (Printed (Message s)) h"

definition init_doc :: "env \<Rightarrow> host" where
  \<comment> \<open>Modelled from the spec: document initialisation, a new empty document.\<close>
  "init_doc e = \<lparr>doc = \<lparr>DocName = ''Unnamed'', objects = [], last_id = 0\<rparr>, calls = [NewDocument],
                naming = auto_name e\<rparr>"

definition add_explanation_obj :: "string \<Rightarrow> host \<Rightarrow> host" where
  \<comment> \<open>Modelled from the spec: the manager's explanation object, a text object in the document.\<close>
  "add_explanation_obj text h =
     snd (new_object TextDocument ''Explanation_Report'' [(''Text'', VStr text)] h)"

section \<open>The example script\<close>

definition nl :: string where
  "nl = [CHR 0x0A]"

definition get_information :: "(string \<times> info) list" where
  "get_information =
     [(''name'', S ''Frequency Analysis Cylindrical Shell''),
      (''meshtype'', S ''face''),
      (''meshelement'', S ''Quad4''),
      (''constraints'', L [''fixed'']),
      (''solvers'', L [''calculix'', ''ccxtools'']),
      (''material'', S ''solid''),
      (''equation'', S ''frequency'')]"

definition get_explanation :: "string \<Rightarrow> string" where
  "get_explanation header =
     header @ nl @ nl
     @ ''To run the example from Python console use:'' @ nl
     @ ''from femexamples.frequency_cylindrical_shell import setup'' @ nl
     @ ''setup()'' @ nl @ nl @ nl
     @ ''See forum topic post:'' @ nl
     @ ''https://forum.freecadweb.org/viewtopic.php?f=18&t=65382#p564156'' @ nl
     @ ''frequency analysis for cylindrical shell'' @ nl @ nl"

text \<open>
  \<^verbatim>\<open>setup\<close> is one linear procedure. It is split here at its own comment lines
  (\<^verbatim>\<open># geometric object\<close>, \<^verbatim>\<open># analysis\<close>, \<^verbatim>\<open># solver\<close>, ...); every block takes the host
  state the previous one left. A Python local that may be unbound is an \<open>option\<close>.
\<close>

definition setup_init :: "env \<Rightarrow> document option \<Rightarrow> host" where
  \<comment> \<open>lines 68--76: the document, and the explanation object\<close>
  "setup_init e doc0 =
     (let h = (case doc0 of None \<Rightarrow> init_doc e
                | Some d \<Rightarrow> \<lparr>doc = d, calls = [], naming = auto_name e\<rparr>)
      in add_explanation_obj (get_explanation (get_header e get_information)) h)"

definition setup_geometry :: "env \<Rightarrow> host \<Rightarrow> unit outcome" where
  \<comment> \<open>lines 78--92: the cylinder, then the cylindrical shell\<close>
  "setup_geometry e h =
     (let (cyl_obj, h) = doc_addObject ''Part::Cylinder'' ''Cylinder'' h;
          h = setattr cyl_obj ''Radius'' (VInt 5000) h;
          h = setattr cyl_obj ''Height'' (VInt 5000) h;
          h = doc_recompute h;
          h = (if GuiUp e then log_call FitAll (log_call ViewAxonometric h) else h);
          h = Draft_downgrade cyl_obj True h
      in and_then (doc_removeObject ''Face001'' h) (\<lambda>_ h.
         and_then (doc_removeObject ''Face002'' h) (\<lambda>_ h.
         Returned () (doc_recompute h))))"

definition setup_solver :: "string \<Rightarrow> nat \<Rightarrow> host \<Rightarrow> unit outcome" where
  \<comment> \<open>lines 97--118\<close>
  "setup_solver solvertype analysis h =
     (let (solver_obj, h) =
            (if solvertype = ''calculix'' then
               (let (s, h) = makeSolverCalculix ''SolverCalculiX'' h in (Some s, h))
             else if solvertype = ''ccxtools'' then
               (let (s, h) = makeSolverCalculixCcxTools ''CalculiXccxTools'' h;
                    h = setattr s ''WorkingDir'' (VStr '''') h
                in (Some s, h))
             else
               (None, PrintWarning
                  (''Not known or not supported solver type: '' @ solvertype
                   @ ''. No solver object was created.'' @ nl) h))
      in and_then
           (if solvertype = ''calculix'' \<or> solvertype = ''ccxtools'' then
              (case solver_obj of
                 None \<Rightarrow> Raised (UnboundLocalError ''solver_obj'') h
               | Some s \<Rightarrow>
                   (let h = setattr s ''SplitInputWriter'' (VBool False) h;
                        h = setattr s ''AnalysisType'' (VStr ''frequency'') h;
                        h = setattr s ''GeometricalNonlinearity'' (VStr ''linear'') h;
                        h = setattr s ''ThermoMechSteadyState'' (VBool False) h;
                        h = setattr s ''MatrixSolverType'' (VStr ''default'') h;
                        h = setattr s ''IterationsControlParameterTimeUse'' (VBool False) h;
                        h = setattr s ''EigenmodesCount'' (VInt 10) h;
                        h = setattr s ''EigenmodeHighLimit'' (VFloat 1000000) h;
                        h = setattr s ''EigenmodeLowLimit'' (VFloat (1 / 100)) h
                    in Returned () h))
            else Returned () h)
           (\<lambda>_ h. case solver_obj of
                     None \<Rightarrow> Raised (UnboundLocalError ''solver_obj'') h
                   | Some s \<Rightarrow> Returned () (snd (analysis_addObject analysis s h))))"

definition setup_material :: "nat \<Rightarrow> host \<Rightarrow> unit outcome" where
  \<comment> \<open>lines 120--130\<close>
  "setup_material analysis h =
     (let (m, h) = makeMaterialSolid ''MechanicalMaterial'' h;
          (added, h) = analysis_addObject analysis m h
      in case added of
           [] \<Rightarrow> Raised IndexError h
         | material_obj # _ \<Rightarrow>
             (case getprop h material_obj ''Material'' of
                Some (VDict mat) \<Rightarrow>
                  (let mat = setitem mat ''Name'' ''Steel-Generic'';
                       mat = setitem mat ''YoungsModulus'' ''210 GPa'';
                       mat = setitem mat ''PoissonRatio'' ''0.30'';
                       mat = setitem mat ''Density'' ''7900 kg/m^3'';
                       h = setattr material_obj ''Material'' (VDict mat) h
                   in Returned () (snd (analysis_addObject analysis material_obj h)))
              | _ \<Rightarrow> Raised (AttributeError ''Material'') h))"

definition setup_constraint :: "nat \<Rightarrow> host \<Rightarrow> unit outcome" where
  \<comment> \<open>lines 132--144\<close>
  "setup_constraint analysis h =
     (let (con_disp_xyz, h) = makeConstraintDisplacement ''Fix_Z'' h
      in and_then (doc_getattr ''Face'' h) (\<lambda>face h.
           (let h = setattr con_disp_xyz ''References'' (VLinkSub [(face, ''Edge2'')]) h;
                h = setattr con_disp_xyz ''xFix'' (VBool False) h;
                h = setattr con_disp_xyz ''xFree'' (VBool True) h;
                h = setattr con_disp_xyz ''xDisplacement'' (VFloat 0) h;
                h = setattr con_disp_xyz ''yFix'' (VBool False) h;
                h = setattr con_disp_xyz ''yFree'' (VBool True) h;
                h = setattr con_disp_xyz ''yDisplacement'' (VFloat 0) h;
                h = setattr con_disp_xyz ''zFix'' (VBool True) h;
                h = setattr con_disp_xyz ''zFree'' (VBool False) h;
                h = setattr con_disp_xyz ''zDisplacement'' (VFloat 0) h
            in Returned () (snd (analysis_addObject analysis con_disp_xyz h)))))"

definition setup_thickness :: "nat \<Rightarrow> host \<Rightarrow> unit outcome" where
  \<comment> \<open>lines 146--148\<close>
  "setup_thickness analysis h =
     (let (geo_thickness, h) = makeElementGeometry2D (VInt 10) h
      in Returned () (snd (analysis_addObject analysis geo_thickness h)))"

definition setup_mesh :: "env \<Rightarrow> nat \<Rightarrow> host \<Rightarrow> unit outcome" where
  \<comment> \<open>lines 150--166\<close>
  "setup_mesh e analysis h =
     (let (femmesh_obj, h) = makeMeshGmsh ''Cylinder_Shell_Mesh'' h
      in and_then (doc_getattr ''Face'' h) (\<lambda>face h.
           (let h = setattr femmesh_obj ''Part'' (VLink face) h;
                h = setattr femmesh_obj ''ElementDimension'' (VStr ''2D'') h;
                h = setattr femmesh_obj ''ElementOrder'' (VStr ''2nd'') h;
                h = setattr femmesh_obj ''Algorithm2D'' (VStr ''Packing Parallelograms'') h;
                h = setattr femmesh_obj ''RecombinationAlgorithm'' (VStr ''Simple'') h;
                h = setattr femmesh_obj ''HighOrderOptimize'' (VStr ''Optimization'') h;
                h = setattr femmesh_obj ''RecombineAll'' (VBool True) h;
                h = setattr femmesh_obj ''SecondOrderLinear'' (VBool True) h;
                h = setattr femmesh_obj ''CharacteristicLengthMax'' (VStr ''300.0 mm'') h;
                (err, h) = create_mesh e femmesh_obj h;
                h = PrintMessage err h
            in Returned () (snd (analysis_addObject analysis femmesh_obj h)))))"

definition setup_until_geometry :: "env \<Rightarrow> document option \<Rightarrow> unit outcome" where
  \<comment> \<open>lines 68--92\<close>
  "setup_until_geometry e doc0 = setup_geometry e (setup_init e doc0)"

definition setup_fem :: "env \<Rightarrow> string \<Rightarrow> host \<Rightarrow> string outcome" where
  \<comment> \<open>lines 94--168\<close>
  "setup_fem e solvertype h =
     (let (analysis, h) = makeAnalysis ''Analysis'' h
      in and_then (setup_solver solvertype analysis h) (\<lambda>_ h.
         and_then (setup_material analysis h) (\<lambda>_ h.
         and_then (setup_constraint analysis h) (\<lambda>_ h.
         and_then (setup_thickness analysis h) (\<lambda>_ h.
         and_then (setup_mesh e analysis h) (\<lambda>_ h.
           (let h = doc_recompute h in Returned (DocName (doc h)) h)))))))"

definition setup_example :: "env \<Rightarrow> document option \<Rightarrow> string \<Rightarrow> string outcome" where
  \<comment> \<open>\<^verbatim>\<open>setup(doc, solvertype)\<close> (the name \<open>setup\<close> alone is a keyword here); the value
      returned is the handle of the document, its name.\<close>
  "setup_example e doc0 solvertype =
     and_then (setup_until_geometry e doc0) (\<lambda>_ h. setup_fem e solvertype h)"

section \<open>Vocabulary of the statements\<close>

text \<open>
  The script removes the faces it does not need by the names \<^verbatim>\<open>Face001\<close> and \<^verbatim>\<open>Face002\<close> and
  finds the one it keeps by the name \<^verbatim>\<open>Face\<close>. The naming convention it relies on is stated
  here as two properties a convention may or may not have.
\<close>

definition begins_as_requested :: "naming \<Rightarrow> bool" where
  \<comment> \<open>the name of a new object begins with the name requested for it\<close>
  "begins_as_requested p \<longleftrightarrow> (\<forall>used n. prefix n (p used n))"

definition counts_faces :: "naming \<Rightarrow> bool" where
  \<comment> \<open>an object requested as \<^verbatim>\<open>Face\<close> is named \<^verbatim>\<open>Face\<close> when no name of the document begins
      with \<^verbatim>\<open>Face\<close>, \<^verbatim>\<open>Face001\<close> when \<^verbatim>\<open>Face\<close> is the only such name, \<^verbatim>\<open>Face002\<close> when \<^verbatim>\<open>Face\<close>
      and \<^verbatim>\<open>Face001\<close> are the only such names\<close>
  "counts_faces p \<longleftrightarrow>
     (\<forall>used.
        (set (filter (prefix ''Face'') used) = {} \<longrightarrow> p used ''Face'' = ''Face'')
      \<and> (set (filter (prefix ''Face'') used) = {''Face''} \<longrightarrow> p used ''Face'' = ''Face001'')
      \<and> (set (filter (prefix ''Face'') used) = {''Face'', ''Face001''}
            \<longrightarrow> p used ''Face'' = ''Face002''))"

definition expected_naming :: "naming \<Rightarrow> bool" where
  "expected_naming p \<longleftrightarrow> begins_as_requested p \<and> counts_faces p"

definition wf_host :: "host \<Rightarrow> bool" where
  \<comment> \<open>no object of the document has an identifier above the document's counter\<close>
  "wf_host h = (max_id (objects (doc h)) \<le> last_id (doc h))"

definition extends :: "host \<Rightarrow> call list \<Rightarrow> nat \<Rightarrow> host \<Rightarrow> bool" where
  \<comment> \<open>\<open>h'\<close> is \<open>h\<close> after the requests \<open>cs\<close>, which created \<open>k\<close> objects; when every new
      object's name begins with the name requested for it, none of them is named \<^verbatim>\<open>Face\<close>\<close>
  "extends h cs k h' \<longleftrightarrow>
     wf_host h' \<and> last_id (doc h') = last_id (doc h) + k \<and> DocName (doc h') = DocName (doc h)
     \<and> calls h' = calls h @ cs \<and> naming h' = naming h
     \<and> (begins_as_requested (naming h) \<longrightarrow> lookup_name h' ''Face'' = lookup_name h ''Face'')"

definition solver_kind :: "string \<Rightarrow> objkind" where
  "solver_kind solvertype = (if solvertype = ''calculix'' then FemSolverCalculix else FemSolverCcxTools)"

definition frequency_props :: "(string \<times> pyval) list" where
  "frequency_props =
     [(''SplitInputWriter'', VBool False),
      (''AnalysisType'', VStr ''frequency''),
      (''GeometricalNonlinearity'', VStr ''linear''),
      (''ThermoMechSteadyState'', VBool False),
      (''MatrixSolverType'', VStr ''default''),
      (''IterationsControlParameterTimeUse'', VBool False),
      (''EigenmodesCount'', VInt 10),
      (''EigenmodeHighLimit'', VFloat 1000000),
      (''EigenmodeLowLimit'', VFloat (1 / 100))]"

definition solver_props :: "string \<Rightarrow> (string \<times> pyval) list" where
  "solver_props solvertype =
     (if solvertype = ''calculix'' then frequency_props
      else (''WorkingDir'', VStr []) # frequency_props)"

definition material_props :: "(string \<times> pyval) list" where
  "material_props =
     [(''Material'', VDict [(''Name'', ''Steel-Generic''), (''YoungsModulus'', ''210 GPa''),
        (''PoissonRatio'', ''0.30''), (''Density'', ''7900 kg/m^3'')])]"

definition constraint_props :: "nat \<Rightarrow> (string \<times> pyval) list" where
  "constraint_props face =
     [(''References'', VLinkSub [(face, ''Edge2'')]),
      (''xFix'', VBool False), (''xFree'', VBool True), (''xDisplacement'', VFloat 0),
      (''yFix'', VBool False), (''yFree'', VBool True), (''yDisplacement'', VFloat 0),
      (''zFix'', VBool True), (''zFree'', VBool False), (''zDisplacement'', VFloat 0)]"

definition mesh_props :: "nat \<Rightarrow> (string \<times> pyval) list" where
  "mesh_props face =
     [(''Part'', VLink face),
      (''ElementDimension'', VStr ''2D''),
      (''ElementOrder'', VStr ''2nd''),
      (''Algorithm2D'', VStr ''Packing Parallelograms''),
      (''RecombinationAlgorithm'', VStr ''Simple''),
      (''HighOrderOptimize'', VStr ''Optimization''),
      (''RecombineAll'', VBool True),
      (''SecondOrderLinear'', VBool True),
      (''CharacteristicLengthMax'', VStr ''300.0 mm'')]"

definition unknown_solver_warning :: "string \<Rightarrow> call" where
  "unknown_solver_warning solvertype =
     Printed (Warning (''Not known or not supported solver type: '' @ solvertype
                       @ ''. No solver object was created.'' @ nl))"

definition attr_calls :: "nat \<Rightarrow> (string \<times> pyval) list \<Rightarrow> call list" where
  "attr_calls i ps = map (\<lambda>(p, v). SetAttr i p v) ps"

definition base_id :: "document option \<Rightarrow> nat" where
  \<comment> \<open>the highest identifier the document has handed out before the call\<close>
  "base_id doc0 = (case doc0 of None \<Rightarrow> 0 | Some d \<Rightarrow> max (last_id d) (max_id (objects d)))"

definition doc_name :: "document option \<Rightarrow> string" where
  "doc_name doc0 = (case doc0 of None \<Rightarrow> ''Unnamed'' | Some d \<Rightarrow> DocName d)"

definition init_calls :: "document option \<Rightarrow> call list" where
  "init_calls doc0 =
     (case doc0 of None \<Rightarrow> [NewDocument] | Some d \<Rightarrow> []) @ [Created TextDocument (Suc (base_id doc0))]"

definition cylinder_calls :: "env \<Rightarrow> nat \<Rightarrow> call list" where
  "cylinder_calls e cyl =
     [Created (DocObject ''Part::Cylinder'') cyl,
      SetAttr cyl ''Radius'' (VInt 5000), SetAttr cyl ''Height'' (VInt 5000), Recomputed]
     @ (if GuiUp e then [ViewAxonometric, FitAll] else [])"

definition downgrade_calls :: "nat \<Rightarrow> call list" where
  "downgrade_calls cyl =
     [Downgraded cyl, Created ShapeFeature (Suc cyl), Created ShapeFeature (Suc (Suc cyl)),
      Created ShapeFeature (Suc (Suc (Suc cyl)))]"

definition geometry_calls :: "env \<Rightarrow> nat \<Rightarrow> call list" where
  "geometry_calls e cyl =
     cylinder_calls e cyl @ downgrade_calls cyl
     @ [RemoveObject ''Face001'', RemoveObject ''Face002'', Recomputed]"

definition solver_calls :: "string \<Rightarrow> nat \<Rightarrow> nat \<Rightarrow> call list" where
  "solver_calls solvertype a s =
     Created (solver_kind solvertype) s # attr_calls s (solver_props solvertype) @ [GroupAdd a s]"

definition material_calls :: "nat \<Rightarrow> nat \<Rightarrow> call list" where
  "material_calls a m =
     [Created FemMaterialSolid m, GroupAdd a m] @ attr_calls m material_props @ [GroupAdd a m]"

definition constraint_calls :: "nat \<Rightarrow> nat \<Rightarrow> nat \<Rightarrow> call list" where
  "constraint_calls a c face =
     Created FemConstraintDisplacement c # attr_calls c (constraint_props face) @ [GroupAdd a c]"

definition thickness_calls :: "nat \<Rightarrow> nat \<Rightarrow> call list" where
  "thickness_calls a t = [Created FemElementGeometry2D t, GroupAdd a t]"

definition mesh_calls :: "env \<Rightarrow> nat \<Rightarrow> nat \<Rightarrow> nat \<Rightarrow> call list" where
  "mesh_calls e a g face =
     Created FemMeshGmsh g # attr_calls g (mesh_props face)
     @ [CreateMesh g, Printed (Message (create_mesh_status e)), GroupAdd a g]"

definition fem_calls :: "env \<Rightarrow> string \<Rightarrow> nat \<Rightarrow> nat \<Rightarrow> nat \<Rightarrow> call list" where
  \<comment> \<open>the requests of lines 94--168 when the analysis gets the identifier \<open>a\<close>, and the name
      \<^verbatim>\<open>Face\<close> resolves to \<open>fc\<close> in line 134 and to \<open>fm\<close> in line 152\<close>
  "fem_calls e solvertype a fc fm =
     Created FemAnalysis a
     # solver_calls solvertype a (a + 1)
     @ material_calls a (a + 2)
     @ constraint_calls a (a + 3) fc
     @ thickness_calls a (a + 4)
     @ mesh_calls e a (a + 5) fm
     @ [Recomputed]"

definition initial_objects :: "document option \<Rightarrow> dobj list" where
  "initial_objects doc0 = (case doc0 of None \<Rightarrow> [] | Some d \<Rightarrow> objects d)"

definition no_Face_names :: "dobj list \<Rightarrow> bool" where
  \<comment> \<open>no object has a name that begins with \<^verbatim>\<open>Face\<close>\<close>
  "no_Face_names obs \<longleftrightarrow> (\<forall>ob \<in> set obs. \<not> prefix ''Face'' (Name ob))"

definition no_faces :: "dobj list \<Rightarrow> bool" where
  \<comment> \<open>no object is face-shaped\<close>
  "no_faces obs \<longleftrightarrow> (\<forall>ob \<in> set obs. \<not> is_face_shape (shape_of ob))"

definition new_faces :: "nat \<Rightarrow> host \<Rightarrow> dobj list" where
  \<comment> \<open>the face-shaped objects of the document that were created after its identifier counter
      stood at \<open>b\<close>\<close>
  "new_faces b h = filter (\<lambda>ob. b < Id ob) (face_objects h)"

definition faces_within :: "nat \<Rightarrow> nat \<Rightarrow> host \<Rightarrow> bool" where
  \<comment> \<open>every face-shaped object of the document that was created after its identifier
      counter stood at \<open>b\<close> is the object \<open>f\<close>\<close>
  "faces_within b f h \<longleftrightarrow>
     (\<forall>ob \<in> set (objects (doc h)). is_face_shape (shape_of ob) \<and> b < Id ob \<longrightarrow> Id ob = f)"

fun is_solver :: "objkind \<Rightarrow> bool" where
  "is_solver FemSolverCalculix = True"
| "is_solver FemSolverCcxTools = True"
| "is_solver k = False"

fun created_id :: "(objkind \<Rightarrow> bool) \<Rightarrow> call \<Rightarrow> nat list" where
  "created_id P (Created k i) = (if P k then [i] else [])"
| "created_id P c = []"

definition created :: "(objkind \<Rightarrow> bool) \<Rightarrow> call list \<Rightarrow> nat list" where
  \<comment> \<open>the objects of a kind that the logged requests created, in order\<close>
  "created P cs = concat (map (created_id P) cs)"

definition has_kind :: "host \<Rightarrow> (objkind \<Rightarrow> bool) \<Rightarrow> nat \<Rightarrow> bool" where
  "has_kind h P i = (case kind_of h i of None \<Rightarrow> False | Some k \<Rightarrow> P k)"

definition members :: "host \<Rightarrow> nat \<Rightarrow> (objkind \<Rightarrow> bool) \<Rightarrow> nat list" where
  \<comment> \<open>the members of an analysis that are objects of a kind\<close>
  "members h a P = filter (has_kind h P) (group_of h a)"

definition fem_model :: "string \<Rightarrow> nat \<Rightarrow> nat \<Rightarrow> nat \<Rightarrow> host \<Rightarrow> bool" where
  \<comment> \<open>the object graph of the example: the analysis \<open>a\<close> with its five members, in the order
      they were attached, and the properties the script gave each of them\<close>
  "fem_model solvertype a fc fm h \<longleftrightarrow>
     kind_of h a = Some FemAnalysis
     \<and> group_of h a = [a + 1, a + 2, a + 3, a + 4, a + 5]
     \<and> kind_of h (a + 1) = Some (solver_kind solvertype)
     \<and> (\<forall>q. getprop h (a + 1) q = map_of (solver_props solvertype) q)
     \<and> kind_of h (a + 2) = Some FemMaterialSolid
     \<and> (\<forall>q. getprop h (a + 2) q = map_of material_props q)
     \<and> kind_of h (a + 3) = Some FemConstraintDisplacement
     \<and> (\<forall>q. getprop h (a + 3) q = map_of (constraint_props fc) q)
     \<and> kind_of h (a + 4) = Some FemElementGeometry2D
     \<and> (\<forall>q. getprop h (a + 4) q = map_of [(''Thickness'', VInt 10)] q)
     \<and> kind_of h (a + 5) = Some FemMeshGmsh
     \<and> (\<forall>q. getprop h (a + 5) q = map_of (mesh_props fm) q)"

definition setup_call :: "env \<Rightarrow> document option \<Rightarrow> string option \<Rightarrow> string outcome" where
  \<comment> \<open>\<^verbatim>\<open>def setup(doc=None, solvertype="ccxtools")\<close>: an argument left out takes its default\<close>
  "setup_call e doc0 solvertype =
     setup_example e doc0 (case solvertype of None \<Rightarrow> ''ccxtools'' | Some s \<Rightarrow> s)"

fun error_of :: "'a outcome \<Rightarrow> error option" where
  "error_of (Returned a h) = None"
| "error_of (Raised err h) = Some err"

definition axis_flags :: "host \<Rightarrow> nat \<Rightarrow> string \<Rightarrow> (bool \<times> bool \<times> rat) option" where
  \<comment> \<open>the fixed flag, the free flag and the displacement a constraint object has for an axis\<close>
  "axis_flags h c ax =
     (case (getprop h c (ax @ ''Fix''), getprop h c (ax @ ''Free''), getprop h c (ax @ ''Displacement'')) of
        (Some (VBool fixed), Some (VBool free), Some (VFloat d)) \<Rightarrow> Some (fixed, free, d)
      | _ \<Rightarrow> None)"

definition material_value :: "host \<Rightarrow> nat \<Rightarrow> string \<Rightarrow> string option" where
  \<comment> \<open>an entry of the property mapping of a material object\<close>
  "material_value h m key =
     (case getprop h m ''Material'' of Some (VDict mat) \<Rightarrow> map_of mat key | _ \<Rightarrow> None)"

subsection \<open>Example hosts and documents\<close>

text \<open>
  Running the script on an example needs a host, and so a naming convention. Two are
  defined here, for the examples only: \<open>first_free_name\<close> uses a free name as it is and
  gives a taken one the first free three-digit counter; \<open>underscore_name\<close> uses a free name
  as it is and appends underscores to a taken one.
\<close>

definition digit :: "nat \<Rightarrow> char" where
  "digit n = char_of (48 + n mod 10)"

definition suffix3 :: "nat \<Rightarrow> string" where
  "suffix3 k = [digit (k div 100), digit (k div 10), digit k]"

fun first_free :: "string list \<Rightarrow> string \<Rightarrow> nat \<Rightarrow> nat \<Rightarrow> string" where
  "first_free used base k 0 = base @ suffix3 k"
| "first_free used base k (Suc fuel) =
     (if base @ suffix3 k \<in> set used then first_free used base (Suc k) fuel
      else base @ suffix3 k)"

definition first_free_name :: naming where
  "first_free_name used base =
     (if base \<in> set used then first_free used base 1 (length used) else base)"

fun underscored :: "string list \<Rightarrow> string \<Rightarrow> nat \<Rightarrow> string" where
  "underscored used base 0 = base"
| "underscored used base (Suc fuel) =
     (if base \<in> set used then underscored used (base @ ''_'') fuel else base)"

definition underscore_name :: naming where
  "underscore_name used base = underscored used base (length used)"

definition headless :: env where
  \<comment> \<open>a host without GUI, whose mesher reports nothing, whose headers are empty and whose
      names are numbered by \<open>first_free_name\<close>\<close>
  "headless = \<lparr>GuiUp = False, create_mesh_status = [], get_header = (\<lambda>i. []),
                auto_name = first_free_name\<rparr>"

definition memo_doc :: document where
  \<comment> \<open>a document that holds one text object, named \<^verbatim>\<open>Face001\<close>\<close>
  "memo_doc = \<lparr>DocName = ''Memo'',
      objects = [\<lparr>Id = 1, Name = ''Face001'', Kind = TextDocument,
                  Props = [(''Text'', VStr ''front'')]\<rparr>],
      last_id = 1\<rparr>"

definition label_doc :: document where
  \<comment> \<open>a document that holds one text object, named \<^verbatim>\<open>Face\<close>\<close>
  "label_doc = \<lparr>DocName = ''Label'',
      objects = [\<lparr>Id = 1, Name = ''Face'', Kind = TextDocument,
                  Props = [(''Text'', VStr ''front'')]\<rparr>],
      last_id = 1\<rparr>"

section \<open>Effect of the host operations\<close>

text \<open>
  How each host operation changes what the later steps can observe: the request log, the
  identifier counter, and the kind and the properties of each object.
\<close>

lemma calls_log_call [simp]: "calls (log_call c h) = calls h @ [c]"
  by (simp add: log_call_def)
lemma doc_log_call [simp]: "doc (log_call c h) = doc h"
  by (simp add: log_call_def)
lemma calls_set_objects [simp]: "calls (set_objects os h) = calls h"
  by (simp add: set_objects_def)
lemma last_id_set_objects [simp]: "last_id (doc (set_objects os h)) = last_id (doc h)"
  by (simp add: set_objects_def)
lemma DocName_set_objects [simp]: "DocName (doc (set_objects os h)) = DocName (doc h)"
  by (simp add: set_objects_def)
lemma objects_set_objects: "objects (doc (set_objects os h)) = os"
  by (simp add: set_objects_def)
lemma naming_log_call [simp]: "naming (log_call c h) = naming h"
  by (simp add: log_call_def)
lemma naming_set_objects [simp]: "naming (set_objects os h) = naming h"
  by (simp add: set_objects_def)

lemma Id_set_prop [simp]: "Id (set_prop i p v ob) = Id ob"
  by (simp add: set_prop_def)
lemma Name_set_prop [simp]: "Name (set_prop i p v ob) = Name ob"
  by (simp add: set_prop_def)
lemma Kind_set_prop [simp]: "Kind (set_prop i p v ob) = Kind ob"
  by (simp add: set_prop_def)
lemma Id_recompute_obj [simp]: "Id (recompute_obj ob) = Id ob"
  by (simp split: option.splits pyval.splits)
lemma Name_recompute_obj [simp]: "Name (recompute_obj ob) = Name ob"
  by (simp split: option.splits pyval.splits)
lemma Kind_recompute_obj [simp]: "Kind (recompute_obj ob) = Kind ob"
  by (simp split: option.splits pyval.splits)

lemma max_id_map: "(\<And>ob. Id (f ob) = Id ob) \<Longrightarrow> max_id (map f obs) = max_id obs"
  by (induction obs) simp_all
lemma max_id_filter: "max_id (filter P obs) \<le> max_id obs"
  by (induction obs) auto
lemma find_map_pres: "(\<And>ob. P (f ob) = P ob) \<Longrightarrow> find P (map f obs) = map_option f (find P obs)"
  by (induction obs) simp_all
lemma find_id_above: "max_id obs < i \<Longrightarrow> find (\<lambda>ob. Id ob = i) obs = None"
  by (induction obs) auto

lemma lookup_map_pres:
  "(\<And>ob. Name (f ob) = Name ob) \<Longrightarrow> (\<And>ob. Id (f ob) = Id ob) \<Longrightarrow>
   map_option Id (find (\<lambda>ob. Name ob = n) (map f obs)) = map_option Id (find (\<lambda>ob. Name ob = n) obs)"
  by (induction obs) simp_all

subsection \<open>Storing a property\<close>

lemma calls_store_prop [simp]: "calls (store_prop i p v h) = calls h"
  by (simp add: store_prop_def)
lemma last_id_store_prop [simp]: "last_id (doc (store_prop i p v h)) = last_id (doc h)"
  by (simp add: store_prop_def)
lemma DocName_store_prop [simp]: "DocName (doc (store_prop i p v h)) = DocName (doc h)"
  by (simp add: store_prop_def)
lemma naming_store_prop [simp]: "naming (store_prop i p v h) = naming h"
  by (simp add: store_prop_def)
lemma wf_store_prop [simp]: "wf_host (store_prop i p v h) = wf_host h"
  by (simp add: store_prop_def wf_host_def objects_set_objects max_id_map)
lemma find_id_store_prop: "find_id (store_prop i p v h) j = map_option (set_prop i p v) (find_id h j)"
  by (simp add: store_prop_def find_id_def objects_set_objects find_map_pres)
lemma lookup_name_store_prop [simp]: "lookup_name (store_prop i p v h) n = lookup_name h n"
  by (simp add: store_prop_def lookup_name_def objects_set_objects lookup_map_pres)

subsection \<open>Logging a request\<close>

lemma wf_log_call [simp]: "wf_host (log_call c h) = wf_host h"
  by (simp add: wf_host_def)
lemma find_id_log_call: "find_id (log_call c h) j = find_id h j"
  by (simp add: find_id_def)
lemma lookup_name_log_call [simp]: "lookup_name (log_call c h) n = lookup_name h n"
  by (simp add: lookup_name_def)

subsection \<open>Recomputation\<close>

lemma calls_doc_recompute [simp]: "calls (doc_recompute h) = calls h @ [Recomputed]"
  by (simp add: doc_recompute_def)
lemma last_id_doc_recompute [simp]: "last_id (doc (doc_recompute h)) = last_id (doc h)"
  by (simp add: doc_recompute_def)
lemma DocName_doc_recompute [simp]: "DocName (doc (doc_recompute h)) = DocName (doc h)"
  by (simp add: doc_recompute_def)
lemma naming_doc_recompute [simp]: "naming (doc_recompute h) = naming h"
  by (simp add: doc_recompute_def)
lemma wf_doc_recompute [simp]: "wf_host (doc_recompute h) = wf_host h"
  by (simp add: doc_recompute_def wf_host_def objects_set_objects max_id_map del: recompute_obj.simps)
lemma find_id_doc_recompute: "find_id (doc_recompute h) j = map_option recompute_obj (find_id h j)"
  by (simp add: doc_recompute_def find_id_def objects_set_objects find_map_pres del: recompute_obj.simps)
lemma lookup_name_doc_recompute [simp]: "lookup_name (doc_recompute h) n = lookup_name h n"
  by (simp add: doc_recompute_def lookup_name_def objects_set_objects lookup_map_pres del: recompute_obj.simps)

subsection \<open>Object creation\<close>

lemma fst_new_object: "wf_host h \<Longrightarrow> fst (new_object k n ps h) = Suc (last_id (doc h))"
  by (simp add: new_object_def Let_def wf_host_def max_absorb1)
lemma calls_new_object [simp]: "calls (snd (new_object k n ps h)) = calls h @ [Created k (fst (new_object k n ps h))]"
  by (simp add: new_object_def Let_def)
lemma last_id_new_object [simp]: "last_id (doc (snd (new_object k n ps h))) = fst (new_object k n ps h)"
  by (simp add: new_object_def Let_def)
lemma DocName_new_object [simp]: "DocName (doc (snd (new_object k n ps h))) = DocName (doc h)"
  by (simp add: new_object_def Let_def)
lemma naming_new_object [simp]: "naming (snd (new_object k n ps h)) = naming h"
  by (simp add: new_object_def Let_def)
lemma wf_new_object [simp]: "wf_host (snd (new_object k n ps h))"
  by (simp add: new_object_def Let_def wf_host_def)
lemma find_id_new_object:
  "find_id (snd (new_object k n ps h)) j =
     (if j = fst (new_object k n ps h)
      then Some \<lparr>Id = j, Name = naming h (map Name (objects (doc h))) n, Kind = k, Props = ps\<rparr>
      else find_id h j)"
  by (auto simp add: new_object_def Let_def find_id_def)

lemma begins_as_requestedD:
  "begins_as_requested p \<Longrightarrow> \<not> prefix n n' \<Longrightarrow> p used n \<noteq> n'"
  by (auto simp add: begins_as_requested_def)

lemma lookup_name_new_object:
  "naming h (map Name (objects (doc h))) n \<noteq> n' \<Longrightarrow>
   lookup_name (snd (new_object k n ps h)) n' = lookup_name h n'"
  by (simp add: new_object_def Let_def lookup_name_def)

lemma lookup_Face_new_object:
  "begins_as_requested (naming h) \<Longrightarrow> \<not> prefix n ''Face'' \<Longrightarrow>
   lookup_name (snd (new_object k n ps h)) ''Face'' = lookup_name h ''Face''"
  by (simp add: lookup_name_new_object begins_as_requestedD)

lemma map_of_setitem [simp]: "map_of (setitem kvs k v) k' = (if k' = k then Some v else map_of kvs k')"
  by (induction kvs) auto

lemma find_id_Some_Id: "find_id h j = Some ob \<Longrightarrow> Id ob = j"
  by (auto simp add: find_id_def dest: find_Some_iff [THEN iffD1])

subsection \<open>The kind of an object\<close>

lemma kind_of_log_call [simp]: "kind_of (log_call c h) j = kind_of h j"
  by (simp add: kind_of_def find_id_log_call)
lemma kind_of_store_prop [simp]: "kind_of (store_prop i p v h) j = kind_of h j"
  by (simp add: kind_of_def find_id_store_prop option.map_comp comp_def)
lemma kind_of_doc_recompute [simp]: "kind_of (doc_recompute h) j = kind_of h j"
  by (simp add: kind_of_def find_id_doc_recompute option.map_comp comp_def del: recompute_obj.simps)
lemma kind_of_new_object [simp]:
  "kind_of (snd (new_object k n ps h)) j = (if j = fst (new_object k n ps h) then Some k else kind_of h j)"
  by (simp add: kind_of_def find_id_new_object)

subsection \<open>The properties of an object\<close>

lemma getprop_log_call [simp]: "getprop (log_call c h) j q = getprop h j q"
  by (simp add: getprop_def find_id_log_call)
lemma getprop_store_prop [simp]:
  "getprop (store_prop i p v h) j q =
     (if j = i \<and> q = p \<and> kind_of h i \<noteq> None then Some v else getprop h j q)"
proof (cases "find_id h j")
  case None
  then show ?thesis by (auto simp add: getprop_def kind_of_def find_id_store_prop)
next
  case (Some ob)
  then have "Id ob = j" by (rule find_id_Some_Id)
  with Some show ?thesis
    by (auto simp add: getprop_def kind_of_def set_prop_def find_id_store_prop)
qed
lemma getprop_new_object [simp]:
  "getprop (snd (new_object k n ps h)) j q =
     (if j = fst (new_object k n ps h) then map_of ps q else getprop h j q)"
  by (simp add: getprop_def find_id_new_object)
subsection \<open>Attribute assignment\<close>

lemma calls_setattr [simp]: "calls (setattr i p v h) = calls h @ [SetAttr i p v]"
  by (simp add: setattr_def)
lemma last_id_setattr [simp]: "last_id (doc (setattr i p v h)) = last_id (doc h)"
  by (simp add: setattr_def)
lemma DocName_setattr [simp]: "DocName (doc (setattr i p v h)) = DocName (doc h)"
  by (simp add: setattr_def)
lemma naming_setattr [simp]: "naming (setattr i p v h) = naming h"
  by (simp add: setattr_def)
lemma wf_setattr [simp]: "wf_host (setattr i p v h) = wf_host h"
  by (simp add: setattr_def)
lemma find_id_setattr: "find_id (setattr i p v h) j = map_option (set_prop i p v) (find_id h j)"
  by (simp add: setattr_def find_id_store_prop find_id_log_call)
lemma lookup_name_setattr [simp]: "lookup_name (setattr i p v h) n = lookup_name h n"
  by (simp add: setattr_def)
lemma kind_of_setattr [simp]: "kind_of (setattr i p v h) j = kind_of h j"
  by (simp add: setattr_def)
lemma getprop_setattr [simp]:
  "getprop (setattr i p v h) j q =
     (if j = i \<and> q = p \<and> kind_of h i \<noteq> None then Some v else getprop h j q)"
  by (auto simp add: setattr_def)

lemma group_of_log_call [simp]: "group_of (log_call c h) a = group_of h a"
  by (simp add: group_of_def)

lemma fst_analysis_addObject [simp]:
  "fst (analysis_addObject a i h) = (if i \<in> set (group_of h a) then [] else [i])"
  by (simp add: analysis_addObject_def Let_def)
lemma calls_analysis_addObject [simp]:
  "calls (snd (analysis_addObject a i h)) = calls h @ [GroupAdd a i]"
  by (simp add: analysis_addObject_def Let_def)
lemma last_id_analysis_addObject [simp]:
  "last_id (doc (snd (analysis_addObject a i h))) = last_id (doc h)"
  by (simp add: analysis_addObject_def Let_def)
lemma DocName_analysis_addObject [simp]:
  "DocName (doc (snd (analysis_addObject a i h))) = DocName (doc h)"
  by (simp add: analysis_addObject_def Let_def)
lemma naming_analysis_addObject [simp]:
  "naming (snd (analysis_addObject a i h)) = naming h"
  by (simp add: analysis_addObject_def Let_def)
lemma wf_analysis_addObject [simp]:
  "wf_host (snd (analysis_addObject a i h)) = wf_host h"
  by (simp add: analysis_addObject_def Let_def)
lemma kind_of_analysis_addObject [simp]:
  "kind_of (snd (analysis_addObject a i h)) j = kind_of h j"
  by (simp add: analysis_addObject_def Let_def)
lemma getprop_analysis_addObject [simp]:
  "getprop (snd (analysis_addObject a i h)) j q =
     (if j = a \<and> q = ''Group'' \<and> kind_of h a \<noteq> None \<and> i \<notin> set (group_of h a)
      then Some (VLinkList (group_of h a @ [i])) else getprop h j q)"
  by (auto simp add: analysis_addObject_def Let_def)
lemma lookup_name_analysis_addObject [simp]:
  "lookup_name (snd (analysis_addObject a i h)) n = lookup_name h n"
  by (simp add: analysis_addObject_def Let_def)

lemmas factories = makeAnalysis_def makeSolverCalculix_def makeSolverCalculixCcxTools_def
  makeMaterialSolid_def makeConstraintDisplacement_def makeElementGeometry2D_def makeMeshGmsh_def


section \<open>The blocks of the script\<close>

lemmas trace_defs = attr_calls_def solver_calls_def material_calls_def constraint_calls_def
  thickness_calls_def mesh_calls_def
lemmas props_defs = solver_kind_def solver_props_def frequency_props_def material_props_def
  constraint_props_def mesh_props_def

lemma extendsD:
  "extends h cs k h' \<Longrightarrow> wf_host h'"
  "extends h cs k h' \<Longrightarrow> last_id (doc h') = last_id (doc h) + k"
  "extends h cs k h' \<Longrightarrow> DocName (doc h') = DocName (doc h)"
  "extends h cs k h' \<Longrightarrow> calls h' = calls h @ cs"
  "extends h cs k h' \<Longrightarrow> naming h' = naming h"
  "extends h cs k h' \<Longrightarrow> begins_as_requested (naming h) \<Longrightarrow>
     lookup_name h' ''Face'' = lookup_name h ''Face''"
  by (simp_all add: extends_def)

lemma getprop_doc_recompute_kind:
  "kind_of h j \<noteq> Some (DocObject ''Part::Cylinder'') \<Longrightarrow> getprop (doc_recompute h) j q = getprop h j q"
  by (cases "find_id h j") (auto simp add: getprop_def kind_of_def find_id_doc_recompute)

lemma makeAnalysis_run:
  assumes "wf_host h"
  shows "fst (makeAnalysis ''Analysis'' h) = Suc (last_id (doc h))"
    and "extends h [Created FemAnalysis (Suc (last_id (doc h)))] 1 (snd (makeAnalysis ''Analysis'' h))"
    and "kind_of (snd (makeAnalysis ''Analysis'' h)) j = (if j = Suc (last_id (doc h)) then Some FemAnalysis else kind_of h j)"
    and "getprop (snd (makeAnalysis ''Analysis'' h)) j q =
          (if j = Suc (last_id (doc h)) then map_of [(''Group'', VLinkList [])] q else getprop h j q)"
  using assms
  by (simp_all add: makeAnalysis_def extends_def fst_new_object lookup_Face_new_object)

lemma setup_solver_run:
  assumes "wf_host h" "a \<le> last_id (doc h)" "kind_of h a \<noteq> None"
    and "Suc (last_id (doc h)) \<notin> set (group_of h a)"
    and "st = ''calculix'' \<or> st = ''ccxtools''"
  shows "\<exists>h'. setup_solver st a h = Returned () h'
     \<and> extends h (solver_calls st a (Suc (last_id (doc h)))) 1 h'
     \<and> (\<forall>j. kind_of h' j = (if j = Suc (last_id (doc h)) then Some (solver_kind st) else kind_of h j))
     \<and> (\<forall>j q. getprop h' j q =
          (if j = Suc (last_id (doc h)) then map_of (solver_props st) q
           else if j = a \<and> q = ''Group'' then Some (VLinkList (group_of h a @ [Suc (last_id (doc h))]))
           else getprop h j q))"
  using assms
  by (auto simp add: setup_solver_def extends_def factories split_def Let_def fst_new_object
       lookup_Face_new_object group_of_def trace_defs props_defs)

lemma setup_solver_unknown:
  assumes "st \<noteq> ''calculix''" "st \<noteq> ''ccxtools''"
  shows "setup_solver st a h = Raised (UnboundLocalError ''solver_obj'') (log_call (unknown_solver_warning st) h)"
  using assms by (simp add: setup_solver_def PrintWarning_def unknown_solver_warning_def)

lemma setup_material_run:
  assumes "wf_host h" "a \<le> last_id (doc h)" "kind_of h a \<noteq> None"
    and "Suc (last_id (doc h)) \<notin> set (group_of h a)"
  shows "\<exists>h'. setup_material a h = Returned () h'
     \<and> extends h (material_calls a (Suc (last_id (doc h)))) 1 h'
     \<and> (\<forall>j. kind_of h' j = (if j = Suc (last_id (doc h)) then Some FemMaterialSolid else kind_of h j))
     \<and> (\<forall>j q. getprop h' j q =
          (if j = Suc (last_id (doc h)) then map_of material_props q
           else if j = a \<and> q = ''Group'' then Some (VLinkList (group_of h a @ [Suc (last_id (doc h))]))
           else getprop h j q))"
  using assms
  by (auto simp add: setup_material_def extends_def factories split_def Let_def fst_new_object
       lookup_Face_new_object group_of_def trace_defs props_defs)

lemma setup_constraint_run:
  assumes "wf_host h" "a \<le> last_id (doc h)" "kind_of h a \<noteq> None"
    and "Suc (last_id (doc h)) \<notin> set (group_of h a)"
    and "lookup_name (snd (makeConstraintDisplacement ''Fix_Z'' h)) ''Face'' = Some f"
  shows "\<exists>h'. setup_constraint a h = Returned () h'
     \<and> extends h (constraint_calls a (Suc (last_id (doc h))) f) 1 h'
     \<and> (\<forall>j. kind_of h' j = (if j = Suc (last_id (doc h)) then Some FemConstraintDisplacement else kind_of h j))
     \<and> (\<forall>j q. getprop h' j q =
          (if j = Suc (last_id (doc h)) then map_of (constraint_props f) q
           else if j = a \<and> q = ''Group'' then Some (VLinkList (group_of h a @ [Suc (last_id (doc h))]))
           else getprop h j q))"
  using assms
  by (auto simp add: setup_constraint_def doc_getattr_def extends_def factories split_def Let_def
       fst_new_object lookup_Face_new_object group_of_def trace_defs props_defs)

lemma setup_constraint_no_face:
  assumes "wf_host h" "lookup_name (snd (makeConstraintDisplacement ''Fix_Z'' h)) ''Face'' = None"
  shows "\<exists>h'. setup_constraint a h = Raised (AttributeError ''Face'') h'
     \<and> calls h' = calls h @ [Created FemConstraintDisplacement (Suc (last_id (doc h)))]"
  using assms
  by (auto simp add: setup_constraint_def doc_getattr_def factories split_def Let_def fst_new_object
       lookup_Face_new_object)

lemma setup_thickness_run:
  assumes "wf_host h" "a \<le> last_id (doc h)" "kind_of h a \<noteq> None"
    and "Suc (last_id (doc h)) \<notin> set (group_of h a)"
  shows "\<exists>h'. setup_thickness a h = Returned () h'
     \<and> extends h (thickness_calls a (Suc (last_id (doc h)))) 1 h'
     \<and> (\<forall>j. kind_of h' j = (if j = Suc (last_id (doc h)) then Some FemElementGeometry2D else kind_of h j))
     \<and> (\<forall>j q. getprop h' j q =
          (if j = Suc (last_id (doc h)) then map_of [(''Thickness'', VInt 10)] q
           else if j = a \<and> q = ''Group'' then Some (VLinkList (group_of h a @ [Suc (last_id (doc h))]))
           else getprop h j q))"
  using assms
  by (auto simp add: setup_thickness_def extends_def factories split_def Let_def fst_new_object
       lookup_Face_new_object group_of_def trace_defs)

lemma setup_mesh_run:
  assumes "wf_host h" "a \<le> last_id (doc h)" "kind_of h a \<noteq> None"
    and "Suc (last_id (doc h)) \<notin> set (group_of h a)"
    and "lookup_name (snd (makeMeshGmsh ''Cylinder_Shell_Mesh'' h)) ''Face'' = Some f"
  shows "\<exists>h'. setup_mesh e a h = Returned () h'
     \<and> extends h (mesh_calls e a (Suc (last_id (doc h))) f) 1 h'
     \<and> (\<forall>j. kind_of h' j = (if j = Suc (last_id (doc h)) then Some FemMeshGmsh else kind_of h j))
     \<and> (\<forall>j q. getprop h' j q =
          (if j = Suc (last_id (doc h)) then map_of (mesh_props f) q
           else if j = a \<and> q = ''Group'' then Some (VLinkList (group_of h a @ [Suc (last_id (doc h))]))
           else getprop h j q))"
  using assms
  by (auto simp add: setup_mesh_def doc_getattr_def extends_def factories split_def Let_def
       fst_new_object lookup_Face_new_object group_of_def trace_defs props_defs create_mesh_def
       PrintMessage_def)

lemma setup_mesh_no_face:
  assumes "wf_host h" "lookup_name (snd (makeMeshGmsh ''Cylinder_Shell_Mesh'' h)) ''Face'' = None"
  shows "\<exists>h'. setup_mesh e a h = Raised (AttributeError ''Face'') h'
     \<and> calls h' = calls h @ [Created FemMeshGmsh (Suc (last_id (doc h)))]"
  using assms
  by (auto simp add: setup_mesh_def doc_getattr_def factories split_def Let_def fst_new_object)

lemma lookup_Face_created:
  assumes "begins_as_requested (naming h)"
  shows "lookup_name (snd (makeConstraintDisplacement ''Fix_Z'' h)) ''Face'' = lookup_name h ''Face''"
    and "lookup_name (snd (makeMeshGmsh ''Cylinder_Shell_Mesh'' h)) ''Face'' = lookup_name h ''Face''"
  using assms by (simp_all add: factories lookup_Face_new_object)

lemma setup_fem_unknown:
  assumes wf: "wf_host h" and st: "st \<noteq> ''calculix''" "st \<noteq> ''ccxtools''"
  shows "\<exists>h'. setup_fem e st h = Raised (UnboundLocalError ''solver_obj'') h'
     \<and> calls h' = calls h @ [Created FemAnalysis (Suc (last_id (doc h))), unknown_solver_warning st]
     \<and> (\<forall>j. kind_of h' j = (if j = Suc (last_id (doc h)) then Some FemAnalysis else kind_of h j))
     \<and> group_of h' (Suc (last_id (doc h))) = []"
  using makeAnalysis_run [OF wf] st
  by (simp add: setup_fem_def split_def setup_solver_unknown extends_def group_of_def)

lemma setup_fem_prefix:
  assumes l: "last_id (doc h) = l" and wf: "wf_host h" and st: "st = ''calculix'' \<or> st = ''ccxtools''"
  shows "\<exists>h4. setup_fem e st h =
        and_then (setup_constraint (Suc l) h4) (\<lambda>_ h.
         and_then (setup_thickness (Suc l) h) (\<lambda>_ h.
         and_then (setup_mesh e (Suc l) h) (\<lambda>_ h.
           (let h = doc_recompute h in Returned (DocName (doc h)) h))))
     \<and> extends h (Created FemAnalysis (Suc l) # solver_calls st (Suc l) (Suc l + 1)
                    @ material_calls (Suc l) (Suc l + 2)) 3 h4
     \<and> (\<forall>j. kind_of h4 j =
          (if j = Suc l + 2 then Some FemMaterialSolid
           else if j = Suc l + 1 then Some (solver_kind st)
           else if j = Suc l then Some FemAnalysis
           else kind_of h j))
     \<and> (\<forall>j q. getprop h4 j q =
          (if j = Suc l + 2 then map_of material_props q
           else if j = Suc l + 1 then map_of (solver_props st) q
           else if j = Suc l then map_of [(''Group'', VLinkList [Suc l + 1, Suc l + 2])] q
           else getprop h j q))"
proof -
  let ?a = "Suc l"
  define h2 where "h2 = snd (makeAnalysis ''Analysis'' h)"
  note A = makeAnalysis_run [OF wf, folded h2_def, unfolded l]
  have a: "fst (makeAnalysis ''Analysis'' h) = ?a" by (rule A(1))
  note E2 = extendsD [OF A(2)]
  have g2: "group_of h2 ?a = []" by (simp add: group_of_def A(4))
  have k2: "kind_of h2 ?a \<noteq> None" by (simp add: A(3))
  from setup_solver_run [of h2 ?a st] E2 g2 k2 st l
  obtain h3 where r3: "setup_solver st ?a h2 = Returned () h3"
    and X3: "extends h2 (solver_calls st ?a (Suc (Suc l))) 1 h3"
    and K3: "\<And>j. kind_of h3 j = (if j = Suc (Suc l) then Some (solver_kind st) else kind_of h2 j)"
    and P3: "\<And>j q. getprop h3 j q =
          (if j = Suc (Suc l) then map_of (solver_props st) q
           else if j = ?a \<and> q = ''Group'' then Some (VLinkList [Suc (Suc l)])
           else getprop h2 j q)"
    by auto
  note E3 = extendsD [OF X3]
  have g3: "group_of h3 ?a = [Suc (Suc l)]" by (simp add: group_of_def P3)
  have k3: "kind_of h3 ?a \<noteq> None" by (simp add: K3 A(3))
  from setup_material_run [of h3 ?a] E3 E2 g3 k3 l
  obtain h4 where r4: "setup_material ?a h3 = Returned () h4"
    and X4: "extends h3 (material_calls ?a (Suc (Suc (Suc l)))) 1 h4"
    and K4: "\<And>j. kind_of h4 j = (if j = Suc (Suc (Suc l)) then Some FemMaterialSolid else kind_of h3 j)"
    and P4: "\<And>j q. getprop h4 j q =
          (if j = Suc (Suc (Suc l)) then map_of material_props q
           else if j = ?a \<and> q = ''Group'' then Some (VLinkList [Suc (Suc l), Suc (Suc (Suc l))])
           else getprop h3 j q)"
    by auto
  note E4 = extendsD [OF X4]
  have run: "setup_fem e st h =
        and_then (setup_constraint (Suc l) h4) (\<lambda>_ h.
         and_then (setup_thickness (Suc l) h) (\<lambda>_ h.
         and_then (setup_mesh e (Suc l) h) (\<lambda>_ h.
           (let h = doc_recompute h in Returned (DocName (doc h)) h))))"
    by (simp add: setup_fem_def split_def a h2_def [symmetric] r3 r4)
  have X: "extends h (Created FemAnalysis (Suc l) # solver_calls st (Suc l) (Suc l + 1)
                    @ material_calls (Suc l) (Suc l + 2)) 3 h4"
    by (simp add: extends_def E4 E3 E2 l)
  show ?thesis
    apply (rule exI [of _ h4])
    apply (intro conjI allI)
       apply (rule run)
      apply (rule X)
     apply (simp add: K4 K3 A(3))
    apply (simp add: P4 P3 A(4))
    done
qed

lemma setup_fem_cases [consumes 3, case_names no_Face no_Face_mesh returned]:
  assumes l: "last_id (doc h) = l" and wf: "wf_host h" and st: "st = ''calculix'' \<or> st = ''ccxtools''"
  obtains
    h' where "setup_fem e st h = Raised (AttributeError ''Face'') h'"
      "calls h' = calls h @ Created FemAnalysis (Suc l) # solver_calls st (Suc l) (Suc l + 1)
          @ material_calls (Suc l) (Suc l + 2) @ [Created FemConstraintDisplacement (Suc l + 3)]"
      "begins_as_requested (naming h) \<Longrightarrow> lookup_name h ''Face'' = None"
  | h' fc where "setup_fem e st h = Raised (AttributeError ''Face'') h'"
      "calls h' = calls h @ Created FemAnalysis (Suc l) # solver_calls st (Suc l) (Suc l + 1)
          @ material_calls (Suc l) (Suc l + 2) @ constraint_calls (Suc l) (Suc l + 3) fc
          @ thickness_calls (Suc l) (Suc l + 4) @ [Created FemMeshGmsh (Suc l + 5)]"
      "\<not> begins_as_requested (naming h)"
  | h' fc fm where "setup_fem e st h = Returned (DocName (doc h)) h'"
      "extends h (fem_calls e st (Suc l) fc fm) 6 h'"
      "fem_model st (Suc l) fc fm h'"
      "\<And>j. j \<le> l \<Longrightarrow> kind_of h' j = kind_of h j"
      "\<And>j q. j \<le> l \<Longrightarrow> kind_of h j \<noteq> Some (DocObject ''Part::Cylinder'') \<Longrightarrow>
            getprop h' j q = getprop h j q"
      "begins_as_requested (naming h) \<Longrightarrow> lookup_name h ''Face'' = Some fc \<and> fm = fc"
proof -
  let ?a = "Suc l"
  from setup_fem_prefix [OF l wf st, of e]
  obtain h4 where run4: "setup_fem e st h =
        and_then (setup_constraint (Suc l) h4) (\<lambda>_ h.
         and_then (setup_thickness (Suc l) h) (\<lambda>_ h.
         and_then (setup_mesh e (Suc l) h) (\<lambda>_ h.
           (let h = doc_recompute h in Returned (DocName (doc h)) h))))"
    and X4: "extends h (Created FemAnalysis (Suc l) # solver_calls st (Suc l) (Suc l + 1)
                    @ material_calls (Suc l) (Suc l + 2)) 3 h4"
    and K4: "\<And>j. kind_of h4 j =
          (if j = Suc l + 2 then Some FemMaterialSolid
           else if j = Suc l + 1 then Some (solver_kind st)
           else if j = Suc l then Some FemAnalysis
           else kind_of h j)"
    and P4: "\<And>j q. getprop h4 j q =
          (if j = Suc l + 2 then map_of material_props q
           else if j = Suc l + 1 then map_of (solver_props st) q
           else if j = Suc l then map_of [(''Group'', VLinkList [Suc l + 1, Suc l + 2])] q
           else getprop h j q)"
    by blast
  note E4 = extendsD [OF X4]
  have g4: "group_of h4 ?a = [Suc (Suc l), Suc (Suc (Suc l))]" by (simp add: group_of_def P4)
  have k4: "kind_of h4 ?a \<noteq> None" by (simp add: K4)
  have L4: "last_id (doc h4) = Suc (Suc (Suc l))" using E4(2) l by simp
  have b4: "begins_as_requested (naming h4)" if "begins_as_requested (naming h)"
    using that by (simp add: E4(5))
  define h4c where "h4c = snd (makeConstraintDisplacement ''Fix_Z'' h4)"
  have c4: "lookup_name h4c ''Face'' = lookup_name h ''Face''" if "begins_as_requested (naming h)"
    using lookup_Face_created(1) [OF b4 [OF that]] E4(6) [OF that] by (simp add: h4c_def)
  show thesis
  proof (cases "lookup_name h4c ''Face''")
    case None
    from setup_constraint_no_face [of h4 "Suc l"] E4(1) None
    obtain h' where "setup_constraint (Suc l) h4 = Raised (AttributeError ''Face'') h'"
      and "calls h' = calls h4 @ [Created FemConstraintDisplacement (Suc l + 3)]"
      unfolding L4 h4c_def by auto
    then have "setup_fem e st h = Raised (AttributeError ''Face'') h'"
      and "calls h' = calls h @ Created FemAnalysis (Suc l) # solver_calls st (Suc l) (Suc l + 1)
          @ material_calls (Suc l) (Suc l + 2) @ [Created FemConstraintDisplacement (Suc l + 3)]"
      by (simp_all add: run4 E4)
    moreover have "lookup_name h ''Face'' = None" if "begins_as_requested (naming h)"
      using c4 [OF that] None by simp
    ultimately show ?thesis by (rule that(1))
  next
    case (Some fc)
    from setup_constraint_run [of h4 ?a fc] E4(1) k4 Some
    obtain h5 where r5: "setup_constraint ?a h4 = Returned () h5"
      and X5: "extends h4 (constraint_calls ?a (Suc (Suc (Suc (Suc l)))) fc) 1 h5"
      and K5: "\<And>j. kind_of h5 j = (if j = Suc (Suc (Suc (Suc l))) then Some FemConstraintDisplacement else kind_of h4 j)"
      and P5: "\<And>j q. getprop h5 j q =
          (if j = Suc (Suc (Suc (Suc l))) then map_of (constraint_props fc) q
           else if j = ?a \<and> q = ''Group'' then Some (VLinkList [Suc (Suc l), Suc (Suc (Suc l)), Suc (Suc (Suc (Suc l)))])
           else getprop h4 j q)"
      unfolding L4 g4 h4c_def by auto
    note E5 = extendsD [OF X5]
    have g5: "group_of h5 ?a = [Suc (Suc l), Suc (Suc (Suc l)), Suc (Suc (Suc (Suc l)))]" by (simp add: group_of_def P5)
    have k5: "kind_of h5 ?a \<noteq> None" by (simp add: K5 K4)
    have L5: "last_id (doc h5) = Suc (Suc (Suc (Suc l)))" using E5(2) L4 by simp
    from setup_thickness_run [of h5 ?a] E5(1) k5
    obtain h6 where r6: "setup_thickness ?a h5 = Returned () h6"
      and X6: "extends h5 (thickness_calls ?a (Suc (Suc (Suc (Suc (Suc l)))))) 1 h6"
      and K6: "\<And>j. kind_of h6 j = (if j = Suc (Suc (Suc (Suc (Suc l)))) then Some FemElementGeometry2D else kind_of h5 j)"
      and P6: "\<And>j q. getprop h6 j q =
          (if j = Suc (Suc (Suc (Suc (Suc l)))) then map_of [(''Thickness'', VInt 10)] q
           else if j = ?a \<and> q = ''Group'' then Some (VLinkList [Suc (Suc l), Suc (Suc (Suc l)), Suc (Suc (Suc (Suc l))),
                   Suc (Suc (Suc (Suc (Suc l))))])
           else getprop h5 j q)"
      unfolding L5 g5 by auto
    note E6 = extendsD [OF X6]
    have g6: "group_of h6 ?a = [Suc (Suc l), Suc (Suc (Suc l)), Suc (Suc (Suc (Suc l))), Suc (Suc (Suc (Suc (Suc l))))]"
      by (simp add: group_of_def P6)
    have k6: "kind_of h6 ?a \<noteq> None" by (simp add: K6 K5 K4)
    have L6: "last_id (doc h6) = Suc (Suc (Suc (Suc (Suc l))))" using E6(2) L5 by simp
    have n6: "naming h6 = naming h" by (simp add: E6(5) E5(5) E4(5))
    define h6m where "h6m = snd (makeMeshGmsh ''Cylinder_Shell_Mesh'' h6)"
    have c6: "lookup_name h6m ''Face'' = Some fc" if b: "begins_as_requested (naming h)"
    proof -
      have b5: "begins_as_requested (naming h5)" using b by (simp add: E5(5) E4(5))
      have b6: "begins_as_requested (naming h6)" using b by (simp add: n6)
      have "lookup_name h6m ''Face'' = lookup_name h6 ''Face''"
        unfolding h6m_def by (rule lookup_Face_created(2) [OF b6])
      also have "\<dots> = lookup_name h5 ''Face''" by (rule E6(6) [OF b5])
      also have "\<dots> = lookup_name h4 ''Face''" by (rule E5(6) [OF b4 [OF b]])
      also have "\<dots> = lookup_name h4c ''Face''"
        unfolding h4c_def by (rule lookup_Face_created(1) [OF b4 [OF b], symmetric])
      finally show ?thesis by (simp add: Some)
    qed
    have calls6: "calls h6 = calls h @ Created FemAnalysis (Suc l) # solver_calls st (Suc l) (Suc l + 1)
          @ material_calls (Suc l) (Suc l + 2) @ constraint_calls (Suc l) (Suc l + 3) fc
          @ thickness_calls (Suc l) (Suc l + 4)"
      by (simp add: E6 E5 E4 eval_nat_numeral)
    show ?thesis
    proof (cases "lookup_name h6m ''Face''")
      case None
      from setup_mesh_no_face [of h6 e "Suc l"] E6(1) None
      obtain h' where "setup_mesh e (Suc l) h6 = Raised (AttributeError ''Face'') h'"
        and "calls h' = calls h6 @ [Created FemMeshGmsh (Suc l + 5)]"
        unfolding L6 h6m_def by auto
      then have "setup_fem e st h = Raised (AttributeError ''Face'') h'"
        and "calls h' = calls h @ Created FemAnalysis (Suc l) # solver_calls st (Suc l) (Suc l + 1)
          @ material_calls (Suc l) (Suc l + 2) @ constraint_calls (Suc l) (Suc l + 3) fc
          @ thickness_calls (Suc l) (Suc l + 4) @ [Created FemMeshGmsh (Suc l + 5)]"
        by (simp_all add: run4 r5 r6 calls6)
      moreover have "\<not> begins_as_requested (naming h)"
        using c6 None by auto
      ultimately show ?thesis by (rule that(2))
    next
      case (Some fm)
      from setup_mesh_run [of h6 ?a fm e] E6(1) k6 Some
      obtain h7 where r7: "setup_mesh e ?a h6 = Returned () h7"
        and X7: "extends h6 (mesh_calls e ?a (Suc (Suc (Suc (Suc (Suc (Suc l)))))) fm) 1 h7"
        and K7: "\<And>j. kind_of h7 j = (if j = Suc (Suc (Suc (Suc (Suc (Suc l))))) then Some FemMeshGmsh else kind_of h6 j)"
        and P7: "\<And>j q. getprop h7 j q =
          (if j = Suc (Suc (Suc (Suc (Suc (Suc l))))) then map_of (mesh_props fm) q
           else if j = ?a \<and> q = ''Group'' then Some (VLinkList [Suc (Suc l), Suc (Suc (Suc l)), Suc (Suc (Suc (Suc l))),
                   Suc (Suc (Suc (Suc (Suc l)))), Suc (Suc (Suc (Suc (Suc (Suc l)))))])
           else getprop h6 j q)"
        unfolding L6 g6 h6m_def by auto
      note E7 = extendsD [OF X7]
      have run: "setup_fem e st h = Returned (DocName (doc h)) (doc_recompute h7)"
        by (simp add: run4 r5 r6 r7 Let_def E7 E6 E5 E4)
      have K: "\<And>j. kind_of (doc_recompute h7) j =
          (if j = Suc l + 5 then Some FemMeshGmsh
           else if j = Suc l + 4 then Some FemElementGeometry2D
           else if j = Suc l + 3 then Some FemConstraintDisplacement
           else if j = Suc l + 2 then Some FemMaterialSolid
           else if j = Suc l + 1 then Some (solver_kind st)
           else if j = Suc l then Some FemAnalysis
           else kind_of h j)"
        by (simp add: K7 K6 K5 K4)
      have lk: "lookup_name h7 ''Face'' = lookup_name h ''Face''"
        if b: "begins_as_requested (naming h)"
      proof -
        have b5: "begins_as_requested (naming h5)" using b by (simp add: E5(5) E4(5))
        have b6: "begins_as_requested (naming h6)" using b by (simp add: n6)
        have "lookup_name h7 ''Face'' = lookup_name h6 ''Face''"
          by (rule E7(6) [OF b6])
        also have "\<dots> = lookup_name h5 ''Face''" by (rule E6(6) [OF b5])
        also have "\<dots> = lookup_name h4 ''Face''" by (rule E5(6) [OF b4 [OF b]])
        also have "\<dots> = lookup_name h ''Face''" by (rule E4(6) [OF b])
        finally show ?thesis .
      qed
      have X: "extends h (fem_calls e st (Suc l) fc fm) 6 (doc_recompute h7)"
        unfolding extends_def
        apply (intro conjI impI)
             apply (simp_all add: fem_calls_def E7(1-5) E6(1-5) E5(1-5) E4(1-5) l eval_nat_numeral lk)
        done
      have P: "\<And>j q. kind_of h7 j \<noteq> Some (DocObject ''Part::Cylinder'') \<Longrightarrow>
          getprop (doc_recompute h7) j q = getprop h7 j q"
        by (rule getprop_doc_recompute_kind)
      have M: "fem_model st (Suc l) fc fm (doc_recompute h7)"
        unfolding fem_model_def
        apply (intro conjI allI)
                   apply (simp_all add: group_of_def P K7 K6 K5 K4 P7 P6 P5 P4 solver_kind_def)
        done
      have F: "lookup_name h ''Face'' = Some fc \<and> fm = fc" if b: "begins_as_requested (naming h)"
      proof -
        from c6 [OF b] Some have "fm = fc" by simp
        moreover from c4 [OF b] \<open>lookup_name h4c ''Face'' = Some fc\<close>
        have "lookup_name h ''Face'' = Some fc" by simp
        ultimately show ?thesis by simp
      qed
      show ?thesis
      proof (rule that(3) [of "doc_recompute h7" fc fm])
        show "setup_fem e st h = Returned (DocName (doc h)) (doc_recompute h7)" by (rule run)
        show "extends h (fem_calls e st (Suc l) fc fm) 6 (doc_recompute h7)" by (rule X)
        show "fem_model st (Suc l) fc fm (doc_recompute h7)" by (rule M)
        show "\<And>j. j \<le> l \<Longrightarrow> kind_of (doc_recompute h7) j = kind_of h j"
          by (simp add: K7 K6 K5 K4)
        show "\<And>j q. j \<le> l \<Longrightarrow> kind_of h j \<noteq> Some (DocObject ''Part::Cylinder'') \<Longrightarrow>
            getprop (doc_recompute h7) j q = getprop h j q"
          by (simp add: P K7 K6 K5 K4 P7 P6 P5 P4)
        show "begins_as_requested (naming h) \<Longrightarrow> lookup_name h ''Face'' = Some fc \<and> fm = fc"
          by (rule F)
      qed
    qed
  qed
qed

lemma setup_fem_run:
  assumes l: "last_id (doc h) = l" and wf: "wf_host h" and st: "st = ''calculix'' \<or> st = ''ccxtools''"
    and b: "begins_as_requested (naming h)" and face: "lookup_name h ''Face'' = Some f"
  shows "\<exists>h'. setup_fem e st h = Returned (DocName (doc h)) h'
     \<and> extends h (fem_calls e st (Suc l) f f) 6 h'
     \<and> fem_model st (Suc l) f f h'
     \<and> (\<forall>j. j \<le> l \<longrightarrow> kind_of h' j = kind_of h j)
     \<and> (\<forall>j q. j \<le> l \<longrightarrow> kind_of h j \<noteq> Some (DocObject ''Part::Cylinder'') \<longrightarrow>
            getprop h' j q = getprop h j q)"
  using l wf st
proof (cases rule: setup_fem_cases [of h l st e])
  case (no_Face h')
  from no_Face(3) [OF b] face show ?thesis by simp
next
  case (no_Face_mesh h' fc)
  with b show ?thesis by simp
next
  case (returned h' fc fm)
  from returned(6) [OF b] face have "fc = f" "fm = f" by simp_all
  with returned(1-5) show ?thesis by auto
qed


section \<open>The geometry reduction\<close>

lemma doc_removeObject_cases:
  "(doc_removeObject n h = Raised (LookupFailure n) (log_call (RemoveObject n) h))
   \<or> (\<exists>h'. doc_removeObject n h = Returned () h' \<and> calls h' = calls h @ [RemoveObject n]
         \<and> last_id (doc h') = last_id (doc h) \<and> DocName (doc h') = DocName (doc h)
         \<and> (wf_host h \<longrightarrow> wf_host h') \<and> naming h' = naming h)"
proof (cases "lookup_name h n")
  case None
  then show ?thesis by (simp add: doc_removeObject_def)
next
  case (Some i)
  have "max_id (filter (\<lambda>ob. Name ob \<noteq> n) (objects (doc h))) \<le> max_id (objects (doc h))"
    by (rule max_id_filter)
  with Some show ?thesis
    by (auto simp add: doc_removeObject_def wf_host_def objects_set_objects)
qed

lemma add_faces_3:
  assumes "wf_host h" "last_id (doc h) = l"
  shows "wf_host (add_faces [f1, f2, f3] h)"
    and "last_id (doc (add_faces [f1, f2, f3] h)) = Suc (Suc (Suc l))"
    and "DocName (doc (add_faces [f1, f2, f3] h)) = DocName (doc h)"
    and "calls (add_faces [f1, f2, f3] h) = calls h @ [Created ShapeFeature (Suc l),
           Created ShapeFeature (Suc (Suc l)), Created ShapeFeature (Suc (Suc (Suc l)))]"
    and "naming (add_faces [f1, f2, f3] h) = naming h"
  using assms by (simp_all add: fst_new_object)

lemma Draft_downgrade_solid:
  assumes "wf_host h" "last_id (doc h) = l" "find_id h i = Some ob" "shape_of ob = CylinderSolid r ht"
  shows "wf_host (Draft_downgrade i True h)"
    and "last_id (doc (Draft_downgrade i True h)) = Suc (Suc (Suc l))"
    and "DocName (doc (Draft_downgrade i True h)) = DocName (doc h)"
    and "calls (Draft_downgrade i True h) = calls h @ [Downgraded i, Created ShapeFeature (Suc l),
           Created ShapeFeature (Suc (Suc l)), Created ShapeFeature (Suc (Suc (Suc l)))]"
    and "naming (Draft_downgrade i True h) = naming h"
proof -
  let ?h1 = "log_call (Downgraded i) h"
  let ?h2 = "add_faces [CylinderSide r ht, CircleFace r, CircleFace r] ?h1"
  have eq: "Draft_downgrade i True h = set_objects (filter (\<lambda>ob. Id ob \<noteq> i) (objects (doc ?h2))) ?h2"
    using assms(3,4) by (simp add: Draft_downgrade_def Let_def find_id_log_call del: add_faces.simps)
  have w1: "wf_host ?h1" and l1: "last_id (doc ?h1) = l" using assms(1,2) by simp_all
  note F = add_faces_3 [OF w1 l1, of "CylinderSide r ht" "CircleFace r" "CircleFace r"]
  have "max_id (filter (\<lambda>ob. Id ob \<noteq> i) (objects (doc ?h2))) \<le> max_id (objects (doc ?h2))"
    by (rule max_id_filter)
  with F(1) F(2) show "wf_host (Draft_downgrade i True h)"
    unfolding eq by (simp add: wf_host_def objects_set_objects del: add_faces.simps)
  show "last_id (doc (Draft_downgrade i True h)) = Suc (Suc (Suc l))"
    unfolding eq using F(2) by (simp del: add_faces.simps)
  show "DocName (doc (Draft_downgrade i True h)) = DocName (doc h)"
    unfolding eq using F(3) by (simp del: add_faces.simps)
  show "calls (Draft_downgrade i True h) = calls h @ [Downgraded i, Created ShapeFeature (Suc l),
           Created ShapeFeature (Suc (Suc l)), Created ShapeFeature (Suc (Suc (Suc l)))]"
    unfolding eq using F(4) by (simp del: add_faces.simps)
  show "naming (Draft_downgrade i True h) = naming h"
    unfolding eq using F(5) by (simp del: add_faces.simps)
qed

lemma setup_geometry_prefix:
  assumes wf: "wf_host h" and l: "last_id (doc h) = l"
  shows "\<exists>h6. setup_geometry e h =
        and_then (doc_removeObject ''Face001'' h6) (\<lambda>_ h.
         and_then (doc_removeObject ''Face002'' h) (\<lambda>_ h.
         Returned () (doc_recompute h)))
     \<and> wf_host h6 \<and> last_id (doc h6) = Suc (Suc (Suc (Suc l))) \<and> DocName (doc h6) = DocName (doc h)
     \<and> calls h6 = calls h @ cylinder_calls e (Suc l) @ downgrade_calls (Suc l)
     \<and> naming h6 = naming h"
proof -
  define h1 where "h1 = snd (doc_addObject ''Part::Cylinder'' ''Cylinder'' h)"
  have c: "fst (doc_addObject ''Part::Cylinder'' ''Cylinder'' h) = Suc l"
    using wf l by (simp add: doc_addObject_def fst_new_object)
  define h5 where "h5 = (let h = doc_recompute (setattr (Suc l) ''Height'' (VInt 5000)
         (setattr (Suc l) ''Radius'' (VInt 5000) h1))
       in if GuiUp e then log_call FitAll (log_call ViewAxonometric h) else h)"
  have run: "setup_geometry e h =
        and_then (doc_removeObject ''Face001'' (Draft_downgrade (Suc l) True h5)) (\<lambda>_ h.
         and_then (doc_removeObject ''Face002'' h) (\<lambda>_ h.
         Returned () (doc_recompute h)))"
    by (simp add: setup_geometry_def split_def c h1_def h5_def Let_def)
  have w5: "wf_host h5" and l5: "last_id (doc h5) = Suc l" and d5: "DocName (doc h5) = DocName (doc h)"
    and c5: "calls h5 = calls h @ cylinder_calls e (Suc l)" and n5: "naming h5 = naming h"
    using wf l by (simp_all add: h5_def h1_def doc_addObject_def fst_new_object Let_def cylinder_calls_def)
  have "find_id h5 (Suc l) = Some (recompute_obj (set_prop (Suc l) ''Height'' (VInt 5000)
      (set_prop (Suc l) ''Radius'' (VInt 5000)
        \<lparr>Id = Suc l, Name = naming h (map Name (objects (doc h))) ''Cylinder'',
         Kind = DocObject ''Part::Cylinder'', Props = [(''Shape'', VShape NullShape)]\<rparr>)))"
    using wf l
    by (simp add: h5_def h1_def doc_addObject_def Let_def find_id_log_call find_id_doc_recompute
        find_id_setattr find_id_new_object fst_new_object del: recompute_obj.simps)
  moreover have "shape_of (recompute_obj (set_prop (Suc l) ''Height'' (VInt 5000)
      (set_prop (Suc l) ''Radius'' (VInt 5000)
        \<lparr>Id = Suc l, Name = nm,
         Kind = DocObject ''Part::Cylinder'', Props = [(''Shape'', VShape NullShape)]\<rparr>)))
      = CylinderSolid 5000 5000" for nm
    by (simp add: shape_of_def set_prop_def)
  ultimately have D: "wf_host (Draft_downgrade (Suc l) True h5)"
    "last_id (doc (Draft_downgrade (Suc l) True h5)) = Suc (Suc (Suc (Suc l)))"
    "DocName (doc (Draft_downgrade (Suc l) True h5)) = DocName (doc h5)"
    "calls (Draft_downgrade (Suc l) True h5) = calls h5 @ downgrade_calls (Suc l)"
    "naming (Draft_downgrade (Suc l) True h5) = naming h5"
    using Draft_downgrade_solid [OF w5 l5] by (simp_all add: downgrade_calls_def)
  show ?thesis
    apply (rule exI [of _ "Draft_downgrade (Suc l) True h5"])
    using run D d5 c5 n5 by simp
qed

lemma setup_geometry_cases:
  assumes wf: "wf_host h" and l: "last_id (doc h) = l"
  shows "(\<exists>h'. setup_geometry e h = Raised (LookupFailure ''Face001'') h'
            \<and> calls h' = calls h @ cylinder_calls e (Suc l) @ downgrade_calls (Suc l) @ [RemoveObject ''Face001''])
       \<or> (\<exists>h'. setup_geometry e h = Raised (LookupFailure ''Face002'') h'
            \<and> calls h' = calls h @ cylinder_calls e (Suc l) @ downgrade_calls (Suc l)
                 @ [RemoveObject ''Face001'', RemoveObject ''Face002''])
       \<or> (\<exists>h'. setup_geometry e h = Returned () h' \<and> wf_host h'
            \<and> last_id (doc h') = Suc l + 3 \<and> DocName (doc h') = DocName (doc h)
            \<and> calls h' = calls h @ geometry_calls e (Suc l) \<and> naming h' = naming h)"
proof -
  from setup_geometry_prefix [OF wf l, of e]
  obtain h6 where run: "setup_geometry e h =
        and_then (doc_removeObject ''Face001'' h6) (\<lambda>_ h.
         and_then (doc_removeObject ''Face002'' h) (\<lambda>_ h.
         Returned () (doc_recompute h)))"
     and F: "wf_host h6" "last_id (doc h6) = Suc (Suc (Suc (Suc l)))" "DocName (doc h6) = DocName (doc h)"
       "calls h6 = calls h @ cylinder_calls e (Suc l) @ downgrade_calls (Suc l)"
       "naming h6 = naming h"
    by blast
  from doc_removeObject_cases [of "''Face001''" h6]
  show ?thesis
  proof
    assume "doc_removeObject ''Face001'' h6 = Raised (LookupFailure ''Face001'') (log_call (RemoveObject ''Face001'') h6)"
    then show ?thesis by (simp add: run F)
  next
    assume "\<exists>h'. doc_removeObject ''Face001'' h6 = Returned () h' \<and> calls h' = calls h6 @ [RemoveObject ''Face001'']
         \<and> last_id (doc h') = last_id (doc h6) \<and> DocName (doc h') = DocName (doc h6)
         \<and> (wf_host h6 \<longrightarrow> wf_host h') \<and> naming h' = naming h6"
    then obtain h7 where r7: "doc_removeObject ''Face001'' h6 = Returned () h7"
      and F7: "calls h7 = calls h6 @ [RemoveObject ''Face001'']" "last_id (doc h7) = last_id (doc h6)"
         "DocName (doc h7) = DocName (doc h6)" "wf_host h7" "naming h7 = naming h6"
      using F(1) by blast
    from doc_removeObject_cases [of "''Face002''" h7]
    show ?thesis
    proof
      assume "doc_removeObject ''Face002'' h7 = Raised (LookupFailure ''Face002'') (log_call (RemoveObject ''Face002'') h7)"
      then show ?thesis by (simp add: run r7 F F7)
    next
      assume "\<exists>h'. doc_removeObject ''Face002'' h7 = Returned () h' \<and> calls h' = calls h7 @ [RemoveObject ''Face002'']
         \<and> last_id (doc h') = last_id (doc h7) \<and> DocName (doc h') = DocName (doc h7)
         \<and> (wf_host h7 \<longrightarrow> wf_host h') \<and> naming h' = naming h7"
      then obtain h8 where r8: "doc_removeObject ''Face002'' h7 = Returned () h8"
        and F8: "calls h8 = calls h7 @ [RemoveObject ''Face002'']" "last_id (doc h8) = last_id (doc h7)"
         "DocName (doc h8) = DocName (doc h7)" "wf_host h8" "naming h8 = naming h7"
        using F7(4) by blast
      show ?thesis
        by (simp add: run r7 r8 F F7 F8 geometry_calls_def)
    qed
  qed
qed

lemma setup_init_facts:
  "wf_host (setup_init e doc0)"
  "last_id (doc (setup_init e doc0)) = Suc (base_id doc0)"
  "DocName (doc (setup_init e doc0)) = doc_name doc0"
  "calls (setup_init e doc0) = init_calls doc0"
  "naming (setup_init e doc0) = auto_name e"
  by (simp_all add: setup_init_def add_explanation_obj_def base_id_def doc_name_def init_calls_def
      init_doc_def new_object_def Let_def log_call_def wf_host_def split: option.splits)

lemma objects_new_object:
  "objects (doc (snd (new_object k n ps h))) =
     \<lparr>Id = fst (new_object k n ps h), Name = naming h (map Name (objects (doc h))) n, Kind = k, Props = ps\<rparr>
     # objects (doc h)"
  by (simp add: new_object_def Let_def)
lemma objects_setattr: "objects (doc (setattr i p v h)) = map (set_prop i p v) (objects (doc h))"
  by (simp add: setattr_def store_prop_def objects_set_objects)
lemma objects_doc_recompute: "objects (doc (doc_recompute h)) = map recompute_obj (objects (doc h))"
  by (simp add: doc_recompute_def objects_set_objects del: recompute_obj.simps)

lemma map_set_prop_above: "max_id obs < i \<Longrightarrow> map (set_prop i p v) obs = obs"
  by (induction obs) (auto simp add: set_prop_def)
lemma filter_id_above: "max_id obs < i \<Longrightarrow> filter (\<lambda>ob. Id ob \<noteq> i) obs = obs"
  by (induction obs) auto
lemma filter_name_absent: "\<forall>ob \<in> set obs. Name ob \<noteq> n \<Longrightarrow> filter (\<lambda>ob. Name ob \<noteq> n) obs = obs"
  by (induction obs) auto
lemma find_name_absent: "\<forall>ob \<in> set obs. Name ob \<noteq> n \<Longrightarrow> find (\<lambda>ob. Name ob = n) obs = None"
  by (induction obs) auto

lemma lookup_name_None_iff: "lookup_name h n = None \<longleftrightarrow> n \<notin> Name ` set (objects (doc h))"
  by (auto simp add: lookup_name_def find_None_iff)

lemma is_face_recompute_obj: "\<not> is_face_shape (shape_of ob) \<Longrightarrow> \<not> is_face_shape (shape_of (recompute_obj ob))"
  by (auto simp add: shape_of_def split: option.splits pyval.splits)

lemma no_faces_recompute: "no_faces obs \<Longrightarrow> no_faces (map recompute_obj obs)"
  by (auto simp add: no_faces_def is_face_recompute_obj simp del: recompute_obj.simps)

lemma no_faces_filter: "no_faces obs \<Longrightarrow> filter (\<lambda>ob. is_face_shape (shape_of ob)) obs = []"
  by (induction obs) (auto simp add: no_faces_def)

lemma no_Face_names_recompute: "no_Face_names (map recompute_obj obs) = no_Face_names obs"
  by (simp add: no_Face_names_def del: recompute_obj.simps)

lemma no_Face_namesD:
  assumes "no_Face_names obs"
  shows "\<forall>ob \<in> set obs. Name ob \<noteq> ''Face''" "\<forall>ob \<in> set obs. Name ob \<noteq> ''Face001''"
    "\<forall>ob \<in> set obs. Name ob \<noteq> ''Face002''"
    "filter (prefix ''Face'') (map Name obs) = []"
  using assms by (auto simp add: no_Face_names_def filter_empty_conv)

lemma doc_removeObject_present:
  assumes "n \<in> Name ` set (objects (doc h))"
  shows "doc_removeObject n h =
     Returned () (set_objects (filter (\<lambda>ob. Name ob \<noteq> n) (objects (doc h))) (log_call (RemoveObject n) h))"
proof -
  from assms have "lookup_name h n \<noteq> None" by (simp add: lookup_name_None_iff)
  then show ?thesis by (auto simp add: doc_removeObject_def Let_def)
qed

lemma doc_removeObject_absent:
  assumes "n \<notin> Name ` set (objects (doc h))"
  shows "doc_removeObject n h = Raised (LookupFailure n) (log_call (RemoveObject n) h)"
proof -
  from assms have "lookup_name h n = None" by (simp add: lookup_name_None_iff)
  then show ?thesis by (simp add: doc_removeObject_def Let_def)
qed

lemma setup_geometry_downgraded:
  assumes wf: "wf_host h" and l: "last_id (doc h) = l"
    and nC: "nC = naming h (map Name (objects (doc h))) ''Cylinder''"
    and n1: "n1 = naming h (nC # map Name (objects (doc h))) ''Face''"
    and n2: "n2 = naming h (n1 # nC # map Name (objects (doc h))) ''Face''"
    and n3: "n3 = naming h (n2 # n1 # nC # map Name (objects (doc h))) ''Face''"
  shows "\<exists>h6. setup_geometry e h =
        and_then (doc_removeObject ''Face001'' h6) (\<lambda>_ h.
         and_then (doc_removeObject ''Face002'' h) (\<lambda>_ h.
         Returned () (doc_recompute h)))
     \<and> objects (doc h6) =
         \<lparr>Id = Suc (Suc (Suc (Suc l))), Name = n3, Kind = ShapeFeature,
           Props = [(''Shape'', VShape (CircleFace 5000))]\<rparr>
         # \<lparr>Id = Suc (Suc (Suc l)), Name = n2, Kind = ShapeFeature,
             Props = [(''Shape'', VShape (CircleFace 5000))]\<rparr>
         # \<lparr>Id = Suc (Suc l), Name = n1, Kind = ShapeFeature,
             Props = [(''Shape'', VShape (CylinderSide 5000 5000))]\<rparr>
         # map recompute_obj (objects (doc h))"
proof -
  define obs where "obs = objects (doc h)"
  have m: "max_id obs \<le> l" using wf l by (simp add: wf_host_def obs_def)
  define obs1 where "obs1 = map recompute_obj obs"
  have m1: "max_id obs1 \<le> l" using m by (simp add: obs1_def max_id_map del: recompute_obj.simps)
  have names1: "map Name obs1 = map Name obs" by (simp add: obs1_def del: recompute_obj.simps)
  define C where "C = \<lparr>Id = Suc l, Name = nC, Kind = DocObject ''Part::Cylinder'',
     Props = [(''Shape'', VShape (CylinderSolid 5000 5000)), (''Radius'', VInt 5000), (''Height'', VInt 5000)]\<rparr>"
  define h5 where "h5 = (let h = doc_recompute (setattr (Suc l) ''Height'' (VInt 5000)
         (setattr (Suc l) ''Radius'' (VInt 5000) (snd (doc_addObject ''Part::Cylinder'' ''Cylinder'' h))))
       in if GuiUp e then log_call FitAll (log_call ViewAxonometric h) else h)"
  have c: "fst (doc_addObject ''Part::Cylinder'' ''Cylinder'' h) = Suc l"
    using wf l by (simp add: doc_addObject_def fst_new_object)
  have run: "setup_geometry e h =
        and_then (doc_removeObject ''Face001'' (Draft_downgrade (Suc l) True h5)) (\<lambda>_ h.
         and_then (doc_removeObject ''Face002'' h) (\<lambda>_ h.
         Returned () (doc_recompute h)))"
    by (simp add: setup_geometry_def split_def c h5_def Let_def)
  have o5: "objects (doc h5) = C # obs1" and l5: "last_id (doc h5) = Suc l"
    using wf l m
    by (simp_all add: h5_def Let_def objects_doc_recompute objects_setattr doc_addObject_def
        objects_new_object fst_new_object set_prop_def map_set_prop_above obs_def [symmetric]
        nC obs1_def C_def del: recompute_obj.simps, simp)
  have w5: "wf_host h5" by (simp add: h5_def Let_def doc_addObject_def)
  have n5: "naming h5 = naming h" by (simp add: h5_def Let_def doc_addObject_def)
  have "objects (doc (Draft_downgrade (Suc l) True h5)) =
         \<lparr>Id = Suc (Suc (Suc (Suc l))), Name = n3, Kind = ShapeFeature,
           Props = [(''Shape'', VShape (CircleFace 5000))]\<rparr>
         # \<lparr>Id = Suc (Suc (Suc l)), Name = n2, Kind = ShapeFeature,
             Props = [(''Shape'', VShape (CircleFace 5000))]\<rparr>
         # \<lparr>Id = Suc (Suc l), Name = n1, Kind = ShapeFeature,
             Props = [(''Shape'', VShape (CylinderSide 5000 5000))]\<rparr>
         # obs1"
    using w5 l5 m1
    by (simp add: Draft_downgrade_def Let_def find_id_def o5 C_def shape_of_def
        objects_set_objects objects_new_object fst_new_object names1 n5 n1 n2 n3 filter_id_above
        obs_def [symmetric])
  with run show ?thesis by (auto simp add: obs1_def obs_def)
qed

lemma setup_geometry_objects:
  assumes wf: "wf_host h" and l: "last_id (doc h) = l"
    and nC: "nC = naming h (map Name (objects (doc h))) ''Cylinder''"
    and n1: "n1 = naming h (nC # map Name (objects (doc h))) ''Face''"
    and n2: "n2 = naming h (n1 # nC # map Name (objects (doc h))) ''Face''"
    and n3: "n3 = naming h (n2 # n1 # nC # map Name (objects (doc h))) ''Face''"
    and o6: "obs6 =
         \<lparr>Id = Suc (Suc (Suc (Suc l))), Name = n3, Kind = ShapeFeature,
           Props = [(''Shape'', VShape (CircleFace 5000))]\<rparr>
         # \<lparr>Id = Suc (Suc (Suc l)), Name = n2, Kind = ShapeFeature,
             Props = [(''Shape'', VShape (CircleFace 5000))]\<rparr>
         # \<lparr>Id = Suc (Suc l), Name = n1, Kind = ShapeFeature,
             Props = [(''Shape'', VShape (CylinderSide 5000 5000))]\<rparr>
         # map recompute_obj (objects (doc h))"
  shows "''Face001'' \<notin> Name ` set obs6 \<Longrightarrow>
           error_of (setup_geometry e h) = Some (LookupFailure ''Face001'')"
    and "''Face001'' \<in> Name ` set obs6 \<Longrightarrow>
         ''Face002'' \<notin> Name ` set (filter (\<lambda>ob. Name ob \<noteq> ''Face001'') obs6) \<Longrightarrow>
           error_of (setup_geometry e h) = Some (LookupFailure ''Face002'')"
    and "''Face001'' \<in> Name ` set obs6 \<Longrightarrow>
         ''Face002'' \<in> Name ` set (filter (\<lambda>ob. Name ob \<noteq> ''Face001'') obs6) \<Longrightarrow>
           \<exists>h'. setup_geometry e h = Returned () h'
             \<and> objects (doc h') = map recompute_obj
                  (filter (\<lambda>ob. Name ob \<noteq> ''Face002'') (filter (\<lambda>ob. Name ob \<noteq> ''Face001'') obs6))"
proof -
  from setup_geometry_downgraded [OF wf l nC n1 n2 n3, of e]
  obtain h6 where run: "setup_geometry e h =
        and_then (doc_removeObject ''Face001'' h6) (\<lambda>_ h.
         and_then (doc_removeObject ''Face002'' h) (\<lambda>_ h.
         Returned () (doc_recompute h)))"
    and o: "objects (doc h6) = obs6"
    unfolding o6 by blast
  define h7 where "h7 = set_objects (filter (\<lambda>ob. Name ob \<noteq> ''Face001'') obs6) (log_call (RemoveObject ''Face001'') h6)"
  have o7: "objects (doc h7) = filter (\<lambda>ob. Name ob \<noteq> ''Face001'') obs6"
    by (simp add: h7_def objects_set_objects)
  show "error_of (setup_geometry e h) = Some (LookupFailure ''Face001'')"
    if "''Face001'' \<notin> Name ` set obs6"
    using that doc_removeObject_absent [of "''Face001''" h6] by (simp add: run o)
  have r7: "doc_removeObject ''Face001'' h6 = Returned () h7" if "''Face001'' \<in> Name ` set obs6"
    using that doc_removeObject_present [of "''Face001''" h6] by (simp add: o h7_def)
  show "error_of (setup_geometry e h) = Some (LookupFailure ''Face002'')"
    if "''Face001'' \<in> Name ` set obs6"
      and "''Face002'' \<notin> Name ` set (filter (\<lambda>ob. Name ob \<noteq> ''Face001'') obs6)"
    using that(2) doc_removeObject_absent [of "''Face002''" h7]
    by (simp add: run r7 [OF that(1)] o7)
  show "\<exists>h'. setup_geometry e h = Returned () h'
             \<and> objects (doc h') = map recompute_obj
                  (filter (\<lambda>ob. Name ob \<noteq> ''Face002'') (filter (\<lambda>ob. Name ob \<noteq> ''Face001'') obs6))"
    if "''Face001'' \<in> Name ` set obs6"
      and "''Face002'' \<in> Name ` set (filter (\<lambda>ob. Name ob \<noteq> ''Face001'') obs6)"
    using that(2) doc_removeObject_present [of "''Face002''" h7]
    by (simp add: run r7 [OF that(1)] o7 objects_doc_recompute objects_set_objects
        del: recompute_obj.simps)
qed

lemma expected_naming_faces:
  assumes p: "expected_naming p" and c: "\<not> prefix ''Face'' nC"
    and names: "filter (prefix ''Face'') names = []"
  shows "p (nC # names) ''Face'' = ''Face''"
    and "p (''Face'' # nC # names) ''Face'' = ''Face001''"
    and "p (''Face001'' # ''Face'' # nC # names) ''Face'' = ''Face002''"
proof -
  from p have cf: "counts_faces p" by (simp add: expected_naming_def)
  have "set (filter (prefix ''Face'') (nC # names)) = {}" using c names by simp
  with cf show "p (nC # names) ''Face'' = ''Face''" unfolding counts_faces_def by blast
  have "set (filter (prefix ''Face'') (''Face'' # nC # names)) = {''Face''}" using c names by simp
  with cf show "p (''Face'' # nC # names) ''Face'' = ''Face001''" unfolding counts_faces_def by blast
  have "set (filter (prefix ''Face'') (''Face001'' # ''Face'' # nC # names)) = {''Face'', ''Face001''}"
    using c names by auto
  with cf show "p (''Face001'' # ''Face'' # nC # names) ''Face'' = ''Face002''"
    unfolding counts_faces_def by blast
qed

lemma setup_geometry_clean:
  assumes wf: "wf_host h" and l: "last_id (doc h) = l"
    and p: "expected_naming (naming h)"
    and clean: "no_Face_names (objects (doc h))"
  shows "\<exists>h'. setup_geometry e h = Returned () h'
     \<and> objects (doc h') =
         \<lparr>Id = Suc (Suc l), Name = ''Face'', Kind = ShapeFeature,
          Props = [(''Shape'', VShape (CylinderSide 5000 5000))]\<rparr>
         # map recompute_obj (map recompute_obj (objects (doc h)))"
proof -
  define obs where "obs = objects (doc h)"
  define nC where "nC = naming h (map Name obs) ''Cylinder''"
  from p have "prefix ''Cylinder'' nC"
    by (simp add: expected_naming_def begins_as_requested_def nC_def)
  then have c: "\<not> prefix ''Face'' nC" by (auto simp add: prefix_def)
  note N = no_Face_namesD [OF clean, folded obs_def]
  note n = expected_naming_faces [OF p c N(4)]
  define obs6 where "obs6 =
         \<lparr>Id = Suc (Suc (Suc (Suc l))), Name = ''Face002'', Kind = ShapeFeature,
           Props = [(''Shape'', VShape (CircleFace 5000))]\<rparr>
         # \<lparr>Id = Suc (Suc (Suc l)), Name = ''Face001'', Kind = ShapeFeature,
             Props = [(''Shape'', VShape (CircleFace 5000))]\<rparr>
         # \<lparr>Id = Suc (Suc l), Name = ''Face'', Kind = ShapeFeature,
             Props = [(''Shape'', VShape (CylinderSide 5000 5000))]\<rparr>
         # map recompute_obj obs"
  have N1: "\<forall>ob \<in> set (map recompute_obj obs). Name ob \<noteq> ''Face001''"
    "\<forall>ob \<in> set (map recompute_obj obs). Name ob \<noteq> ''Face002''"
    using N(2,3) by (simp_all del: recompute_obj.simps)
  have f1: "filter (\<lambda>ob. Name ob \<noteq> ''Face001'') obs6 =
         \<lparr>Id = Suc (Suc (Suc (Suc l))), Name = ''Face002'', Kind = ShapeFeature,
           Props = [(''Shape'', VShape (CircleFace 5000))]\<rparr>
         # \<lparr>Id = Suc (Suc l), Name = ''Face'', Kind = ShapeFeature,
             Props = [(''Shape'', VShape (CylinderSide 5000 5000))]\<rparr>
         # map recompute_obj obs"
    by (simp add: obs6_def filter_name_absent [OF N1(1)] del: recompute_obj.simps)
  have f2: "filter (\<lambda>ob. Name ob \<noteq> ''Face002'') (filter (\<lambda>ob. Name ob \<noteq> ''Face001'') obs6) =
         \<lparr>Id = Suc (Suc l), Name = ''Face'', Kind = ShapeFeature,
             Props = [(''Shape'', VShape (CylinderSide 5000 5000))]\<rparr>
         # map recompute_obj obs"
    by (simp add: f1 filter_name_absent [OF N1(2)] del: recompute_obj.simps)
  have i1: "''Face001'' \<in> Name ` set obs6" by (simp add: obs6_def)
  have i2: "''Face002'' \<in> Name ` set (filter (\<lambda>ob. Name ob \<noteq> ''Face001'') obs6)"
    by (simp add: f1)
  have e1: "nC = naming h (map Name (objects (doc h))) ''Cylinder''"
    by (simp add: nC_def obs_def)
  have e2: "''Face'' = naming h (nC # map Name (objects (doc h))) ''Face''"
    using n(1) by (simp add: obs_def)
  have e3: "''Face001'' = naming h (''Face'' # nC # map Name (objects (doc h))) ''Face''"
    using n(2) by (simp add: obs_def)
  have e4: "''Face002'' = naming h (''Face001'' # ''Face'' # nC # map Name (objects (doc h))) ''Face''"
    using n(3) by (simp add: obs_def)
  have e5: "obs6 =
         \<lparr>Id = Suc (Suc (Suc (Suc l))), Name = ''Face002'', Kind = ShapeFeature,
           Props = [(''Shape'', VShape (CircleFace 5000))]\<rparr>
         # \<lparr>Id = Suc (Suc (Suc l)), Name = ''Face001'', Kind = ShapeFeature,
             Props = [(''Shape'', VShape (CircleFace 5000))]\<rparr>
         # \<lparr>Id = Suc (Suc l), Name = ''Face'', Kind = ShapeFeature,
             Props = [(''Shape'', VShape (CylinderSide 5000 5000))]\<rparr>
         # map recompute_obj (objects (doc h))"
    by (simp add: obs6_def obs_def del: recompute_obj.simps)
  from setup_geometry_objects(3) [OF wf l e1 e2 e3 e4 e5 i1 i2, of e]
  have "\<exists>h'. setup_geometry e h = Returned () h'
             \<and> objects (doc h') = map recompute_obj
                  (filter (\<lambda>ob. Name ob \<noteq> ''Face002'') (filter (\<lambda>ob. Name ob \<noteq> ''Face001'') obs6))" .
  then show ?thesis
    unfolding f2 by (simp add: obs_def del: recompute_obj.simps) simp
qed

lemma and_then_ReturnedE:
  assumes "and_then m k = Returned b h'"
  obtains a h1 where "m = Returned a h1" "k a h1 = Returned b h'"
  using assms by (cases m) auto

lemma shape_of_set_prop: "p \<noteq> ''Shape'' \<Longrightarrow> shape_of (set_prop i p v ob) = shape_of ob"
  by (simp add: shape_of_def set_prop_def)

lemma faces_within_log_call [simp]: "faces_within b f (log_call c h) = faces_within b f h"
  by (simp add: faces_within_def)
lemma faces_within_store_prop:
  "p \<noteq> ''Shape'' \<Longrightarrow> faces_within b f (store_prop i p v h) = faces_within b f h"
  by (simp add: faces_within_def store_prop_def objects_set_objects shape_of_set_prop)
lemma faces_within_setattr:
  "p \<noteq> ''Shape'' \<Longrightarrow> faces_within b f (setattr i p v h) = faces_within b f h"
  by (simp add: setattr_def faces_within_store_prop)
lemma faces_within_new_object:
  "map_of ps ''Shape'' = None \<Longrightarrow> faces_within b f (snd (new_object k n ps h)) = faces_within b f h"
  by (simp add: faces_within_def objects_new_object shape_of_def)
lemma faces_within_analysis_addObject [simp]:
  "faces_within b f (snd (analysis_addObject a i h)) = faces_within b f h"
  by (simp add: analysis_addObject_def Let_def faces_within_store_prop)
lemma faces_within_doc_recompute:
  "faces_within b f h \<Longrightarrow> faces_within b f (doc_recompute h)"
  using is_face_recompute_obj
  by (auto simp add: faces_within_def objects_doc_recompute simp del: recompute_obj.simps)

lemmas faces_within_simps = faces_within_setattr faces_within_new_object

lemma faces_within_solver:
  "faces_within b f h \<Longrightarrow> faces_within b f (host_of (setup_solver st a h))"
  by (simp add: setup_solver_def factories split_def Let_def faces_within_simps PrintWarning_def)

lemma faces_within_material:
  "faces_within b f h \<Longrightarrow> faces_within b f (host_of (setup_material a h))"
  by (simp add: setup_material_def factories split_def Let_def faces_within_simps
      split: list.splits option.splits pyval.splits)

lemma faces_within_constraint:
  "faces_within b f h \<Longrightarrow> faces_within b f (host_of (setup_constraint a h))"
  by (simp add: setup_constraint_def doc_getattr_def factories split_def Let_def faces_within_simps
      split: option.splits)

lemma faces_within_thickness:
  "faces_within b f h \<Longrightarrow> faces_within b f (host_of (setup_thickness a h))"
  by (simp add: setup_thickness_def factories split_def Let_def faces_within_simps)

lemma faces_within_mesh:
  "faces_within b f h \<Longrightarrow> faces_within b f (host_of (setup_mesh e a h))"
  by (simp add: setup_mesh_def doc_getattr_def factories split_def Let_def faces_within_simps
      create_mesh_def PrintMessage_def split: option.splits)

lemma faces_within_fem:
  assumes "setup_fem e st h = Returned n h'" and "faces_within b f h"
  shows "faces_within b f h'"
proof -
  define a where "a = fst (makeAnalysis ''Analysis'' h)"
  define h2 where "h2 = snd (makeAnalysis ''Analysis'' h)"
  have f2: "faces_within b f h2" using assms(2) by (simp add: h2_def makeAnalysis_def faces_within_new_object)
  from assms(1) have "and_then (setup_solver st a h2) (\<lambda>_ h.
         and_then (setup_material a h) (\<lambda>_ h.
         and_then (setup_constraint a h) (\<lambda>_ h.
         and_then (setup_thickness a h) (\<lambda>_ h.
         and_then (setup_mesh e a h) (\<lambda>_ h.
           (let h = doc_recompute h in Returned (DocName (doc h)) h)))))) = Returned n h'"
    by (simp add: setup_fem_def split_def a_def h2_def Let_def)
  then obtain h3 h4 h5 h6 h7 where r: "setup_solver st a h2 = Returned () h3"
    "setup_material a h3 = Returned () h4" "setup_constraint a h4 = Returned () h5"
    "setup_thickness a h5 = Returned () h6" "setup_mesh e a h6 = Returned () h7"
    and fin: "h' = doc_recompute h7"
    by (auto elim!: and_then_ReturnedE simp add: Let_def)
  from faces_within_solver [OF f2, of st a] r(1) have "faces_within b f h3" by simp
  with faces_within_material [of b f h3 a] r(2) have "faces_within b f h4" by simp
  with faces_within_constraint [of b f h4 a] r(3) have "faces_within b f h5" by simp
  with faces_within_thickness [of b f h5 a] r(4) have "faces_within b f h6" by simp
  with faces_within_mesh [of b f h6 e a] r(5) have "faces_within b f h7" by simp
  then show ?thesis unfolding fin by (rule faces_within_doc_recompute)
qed


section \<open>The whole procedure\<close>

lemma setup_example_cases [case_names no_Face001 no_Face002 unknown_solver no_Face no_Face_mesh returned]:
  fixes e :: env and doc0 :: "document option" and st :: string
  obtains
    h where "setup_example e doc0 st = Raised (LookupFailure ''Face001'') h"
      "calls h = init_calls doc0 @ cylinder_calls e (base_id doc0 + 2) @ downgrade_calls (base_id doc0 + 2)
                 @ [RemoveObject ''Face001'']"
  | h where "setup_example e doc0 st = Raised (LookupFailure ''Face002'') h"
      "calls h = init_calls doc0 @ cylinder_calls e (base_id doc0 + 2) @ downgrade_calls (base_id doc0 + 2)
                 @ [RemoveObject ''Face001'', RemoveObject ''Face002'']"
  | h where "st \<noteq> ''calculix''" "st \<noteq> ''ccxtools''"
      "setup_example e doc0 st = Raised (UnboundLocalError ''solver_obj'') h"
      "calls h = init_calls doc0 @ geometry_calls e (base_id doc0 + 2)
                 @ [Created FemAnalysis (base_id doc0 + 6), unknown_solver_warning st]"
  | h where "st = ''calculix'' \<or> st = ''ccxtools''"
      "setup_example e doc0 st = Raised (AttributeError ''Face'') h"
      "calls h = init_calls doc0 @ geometry_calls e (base_id doc0 + 2)
                 @ Created FemAnalysis (base_id doc0 + 6)
                 # solver_calls st (base_id doc0 + 6) (base_id doc0 + 6 + 1)
                 @ material_calls (base_id doc0 + 6) (base_id doc0 + 6 + 2)
                 @ [Created FemConstraintDisplacement (base_id doc0 + 6 + 3)]"
  | h fc where "st = ''calculix'' \<or> st = ''ccxtools''"
      "setup_example e doc0 st = Raised (AttributeError ''Face'') h"
      "calls h = init_calls doc0 @ geometry_calls e (base_id doc0 + 2)
                 @ Created FemAnalysis (base_id doc0 + 6)
                 # solver_calls st (base_id doc0 + 6) (base_id doc0 + 6 + 1)
                 @ material_calls (base_id doc0 + 6) (base_id doc0 + 6 + 2)
                 @ constraint_calls (base_id doc0 + 6) (base_id doc0 + 6 + 3) fc
                 @ thickness_calls (base_id doc0 + 6) (base_id doc0 + 6 + 4)
                 @ [Created FemMeshGmsh (base_id doc0 + 6 + 5)]"
      "\<not> begins_as_requested (auto_name e)"
  | h fc fm h1 where "st = ''calculix'' \<or> st = ''ccxtools''"
      "setup_example e doc0 st = Returned (doc_name doc0) h"
      "DocName (doc h) = doc_name doc0"
      "calls h = init_calls doc0 @ geometry_calls e (base_id doc0 + 2)
                 @ fem_calls e st (base_id doc0 + 6) fc fm"
      "fem_model st (base_id doc0 + 6) fc fm h"
      "setup_until_geometry e doc0 = Returned () h1"
      "begins_as_requested (auto_name e) \<Longrightarrow>
         lookup_name h1 ''Face'' = Some fc \<and> fm = fc \<and> lookup_name h ''Face'' = Some fc"
      "\<And>b g. faces_within b g h1 \<Longrightarrow> faces_within b g h"
      "\<And>j. j \<le> base_id doc0 + 5 \<Longrightarrow> kind_of h j = kind_of h1 j"
      "\<And>j q. j \<le> base_id doc0 + 5 \<Longrightarrow> kind_of h1 j \<noteq> Some (DocObject ''Part::Cylinder'')
          \<Longrightarrow> getprop h j q = getprop h1 j q"
proof -
  define b where "b = base_id doc0"
  define h0 where "h0 = setup_init e doc0"
  note I = setup_init_facts [of e doc0, folded h0_def b_def]
  have c: "Suc (Suc b) = b + 2" by simp
  have ex: "setup_example e doc0 st = and_then (setup_geometry e h0) (\<lambda>_ h. setup_fem e st h)"
    by (simp add: setup_example_def setup_until_geometry_def h0_def)
  from setup_geometry_cases [OF I(1) I(2), of e, unfolded c]
  consider
    (a) h' where "setup_geometry e h0 = Raised (LookupFailure ''Face001'') h'"
      "calls h' = calls h0 @ cylinder_calls e (b + 2) @ downgrade_calls (b + 2) @ [RemoveObject ''Face001'']"
  | (b) h' where "setup_geometry e h0 = Raised (LookupFailure ''Face002'') h'"
      "calls h' = calls h0 @ cylinder_calls e (b + 2) @ downgrade_calls (b + 2)
                 @ [RemoveObject ''Face001'', RemoveObject ''Face002'']"
  | (c) h1 where "setup_geometry e h0 = Returned () h1" "wf_host h1"
      "last_id (doc h1) = b + 2 + 3" "DocName (doc h1) = DocName (doc h0)"
      "calls h1 = calls h0 @ geometry_calls e (b + 2)" "naming h1 = naming h0"
    by blast
  then show thesis
  proof cases
    case a
    then show ?thesis using that(1) [of h'] by (simp add: ex I b_def)
  next
    case b
    then show ?thesis using that(2) [of h'] by (simp add: ex I b_def)
  next
    case c
    have l1: "last_id (doc h1) = b + 5" using c(3) by simp
    have a: "Suc (b + 5) = b + 6" by simp
    have ex1: "setup_example e doc0 st = setup_fem e st h1" by (simp add: ex c(1))
    show ?thesis
    proof (cases "st = ''calculix'' \<or> st = ''ccxtools''")
      case False
      then have st: "st \<noteq> ''calculix''" "st \<noteq> ''ccxtools''" by simp_all
      from setup_fem_unknown [OF c(2) st, of e, unfolded l1 a]
      obtain h' where "setup_fem e st h1 = Raised (UnboundLocalError ''solver_obj'') h'"
        "calls h' = calls h1 @ [Created FemAnalysis (b + 6), unknown_solver_warning st]"
        by blast
      then show ?thesis using that(3) [of h'] st by (simp add: ex1 c I b_def)
    next
      case True
      have n1: "naming h1 = auto_name e" by (simp add: c(6) I)
      have g: "setup_until_geometry e doc0 = Returned () h1"
        by (simp add: setup_until_geometry_def h0_def [symmetric] c(1))
      from l1 c(2) True show ?thesis
      proof (cases rule: setup_fem_cases [of h1 "b + 5" st e])
        case (no_Face h')
        note R = no_Face [unfolded a]
        then show ?thesis using that(4) [of h'] True by (simp add: ex1 c I b_def)
      next
        case (no_Face_mesh h' fc)
        note R = no_Face_mesh [unfolded a]
        then show ?thesis using that(5) [of h' fc] True by (simp add: ex1 c I b_def n1)
      next
        case (returned h' fc fm)
        note returned = returned [unfolded a]
        note E = extendsD [OF returned(2)]
        have fw: "\<And>b g. faces_within b g h1 \<Longrightarrow> faces_within b g h'"
          using returned(1) by (rule faces_within_fem)
        show ?thesis
        proof (rule that(6) [of h' fc fm h1])
          show "st = ''calculix'' \<or> st = ''ccxtools''" by (rule True)
          show "setup_example e doc0 st = Returned (doc_name doc0) h'"
            by (simp add: ex1 returned(1) c I)
          show "DocName (doc h') = doc_name doc0" by (simp add: E c I)
          show "calls h' = init_calls doc0 @ geometry_calls e (base_id doc0 + 2)
                 @ fem_calls e st (base_id doc0 + 6) fc fm" by (simp add: E c I b_def)
          show "fem_model st (base_id doc0 + 6) fc fm h'" using returned(3) by (simp add: b_def)
          show "setup_until_geometry e doc0 = Returned () h1" by (rule g)
          show "lookup_name h1 ''Face'' = Some fc \<and> fm = fc \<and> lookup_name h' ''Face'' = Some fc"
            if "begins_as_requested (auto_name e)"
            using returned(6) E(6) that by (simp add: n1)
          show "\<And>b g. faces_within b g h1 \<Longrightarrow> faces_within b g h'" by (rule fw)
          show "\<And>j. j \<le> base_id doc0 + 5 \<Longrightarrow> kind_of h' j = kind_of h1 j"
            using returned(4) by (simp add: b_def)
          show "\<And>j q. j \<le> base_id doc0 + 5 \<Longrightarrow> kind_of h1 j \<noteq> Some (DocObject ''Part::Cylinder'')
              \<Longrightarrow> getprop h' j q = getprop h1 j q"
            using returned(5) by (simp add: b_def)
        qed
      qed
    qed
  qed
qed

lemma Id_le_max_id: "ob \<in> set obs \<Longrightarrow> Id ob \<le> max_id obs"
  by (induction obs) auto

lemma initial_objects_below: "ob \<in> set (initial_objects doc0) \<Longrightarrow> Id ob \<le> base_id doc0"
  by (cases doc0) (auto simp add: initial_objects_def base_id_def dest: Id_le_max_id)

lemma objects_setup_init:
  "objects (doc (setup_init e doc0)) =
     \<lparr>Id = Suc (base_id doc0), Name = auto_name e (map Name (initial_objects doc0)) ''Explanation_Report'',
      Kind = TextDocument, Props = [(''Text'', VStr (get_explanation (get_header e get_information)))]\<rparr>
     # initial_objects doc0"
  by (simp add: setup_init_def add_explanation_obj_def objects_new_object init_doc_def
      initial_objects_def base_id_def new_object_def Let_def split: option.splits)

lemma setup_until_geometry_clean:
  assumes p: "expected_naming (auto_name e)" and clean: "no_Face_names (initial_objects doc0)"
  shows "\<exists>h ob. setup_until_geometry e doc0 = Returned () h
     \<and> new_faces (base_id doc0) h = [ob] \<and> find_id h (base_id doc0 + 3) = Some ob
     \<and> Id ob = base_id doc0 + 3 \<and> Name ob = ''Face'' \<and> Kind ob = ShapeFeature
     \<and> Props ob = [(''Shape'', VShape (CylinderSide 5000 5000))]
     \<and> lookup_name h ''Face'' = Some (base_id doc0 + 3)
     \<and> lookup_name h ''Face001'' = None \<and> lookup_name h ''Face002'' = None
     \<and> kind_of h (base_id doc0 + 2) = None \<and> kind_of h (base_id doc0 + 4) = None
     \<and> kind_of h (base_id doc0 + 5) = None
     \<and> faces_within (base_id doc0) (base_id doc0 + 3) h
     \<and> (no_faces (initial_objects doc0) \<longrightarrow> face_objects h = [ob])"
proof -
  define b where "b = base_id doc0"
  define h0 where "h0 = setup_init e doc0"
  note I = setup_init_facts [of e doc0, folded h0_def b_def]
  define nE where "nE = auto_name e (map Name (initial_objects doc0)) ''Explanation_Report''"
  define E where "E = \<lparr>Id = Suc b, Name = nE, Kind = TextDocument,
      Props = [(''Text'', VStr (get_explanation (get_header e get_information)))]\<rparr>"
  have o0: "objects (doc h0) = E # initial_objects doc0"
    by (simp add: h0_def objects_setup_init E_def nE_def b_def)
  from p have "prefix ''Explanation_Report'' nE"
    by (simp add: expected_naming_def begins_as_requested_def nE_def)
  then have nE: "\<not> prefix ''Face'' nE" by (auto simp add: prefix_def)
  have c0: "no_Face_names (objects (doc h0))"
    using clean nE by (simp add: o0 no_Face_names_def E_def)
  define obs where "obs = map recompute_obj (map recompute_obj (objects (doc h0)))"
  have c1: "no_Face_names obs"
    unfolding obs_def using c0 by (simp only: no_Face_names_recompute)
  have m: "max_id obs \<le> Suc b"
    using I(1) I(2) by (simp add: obs_def wf_host_def max_id_map del: recompute_obj.simps)
  define F where "F = \<lparr>Id = Suc (Suc (Suc b)), Name = ''Face'', Kind = ShapeFeature,
          Props = [(''Shape'', VShape (CylinderSide 5000 5000))]\<rparr>"
  have p0: "expected_naming (naming h0)" using p by (simp add: I)
  from setup_geometry_clean [OF I(1) I(2) p0 c0, of e]
  obtain h where r: "setup_geometry e h0 = Returned () h" and o: "objects (doc h) = F # obs"
    by (auto simp add: obs_def F_def)
  note N = no_Face_namesD [OF c1]
  have ids: "\<And>i. Suc b < i \<Longrightarrow> find (\<lambda>ob. Id ob = i) obs = None"
    using m by (intro find_id_above) simp
  have e3: "b + 3 = Suc (Suc (Suc b))" by simp
  have sF: "is_face_shape (shape_of F)" by (simp add: F_def shape_of_def)
  have nf: "\<not> (is_face_shape (shape_of ob) \<and> b < Id ob)" if "ob \<in> set obs" for ob
  proof -
    from that obtain ob0 where ob0: "ob0 \<in> set (objects (doc h0))"
      and ob: "ob = recompute_obj (recompute_obj ob0)"
      by (auto simp add: obs_def simp del: recompute_obj.simps)
    from ob0 consider "ob0 = E" | "ob0 \<in> set (initial_objects doc0)" by (auto simp add: o0)
    then show ?thesis
    proof cases
      case 1
      have "\<not> is_face_shape (shape_of E)" by (simp add: E_def shape_of_def)
      then have "\<not> is_face_shape (shape_of ob)"
        unfolding ob 1 by (intro is_face_recompute_obj)
      then show ?thesis by simp
    next
      case 2
      then have "Id ob0 \<le> b" unfolding b_def by (rule initial_objects_below)
      then show ?thesis by (simp add: ob del: recompute_obj.simps)
    qed
  qed
  have nfe: "filter (\<lambda>ob. b < Id ob) (filter (\<lambda>ob. is_face_shape (shape_of ob)) obs) = []"
    using nf by (auto simp add: filter_empty_conv)
  have fo: "new_faces b h = [F]"
    using sF nfe by (simp add: new_faces_def face_objects_def o) (simp add: F_def)
  have fi: "find_id h (b + 3) = Some F" by (simp add: find_id_def o F_def)
  have ln: "lookup_name h ''Face'' = Some (b + 3)" by (simp add: lookup_name_def o F_def)
  have l1: "lookup_name h ''Face001'' = None"
    by (simp add: lookup_name_def o F_def find_name_absent [OF N(2)])
  have l2: "lookup_name h ''Face002'' = None"
    by (simp add: lookup_name_def o F_def find_name_absent [OF N(3)])
  have k: "kind_of h (b + 2) = None" "kind_of h (b + 4) = None" "kind_of h (b + 5) = None"
    by (simp_all add: kind_of_def find_id_def o F_def ids)
  have fw: "faces_within b (b + 3) h"
    using nf by (auto simp add: faces_within_def o F_def)
  have all: "face_objects h = [F]" if "no_faces (initial_objects doc0)"
  proof -
    have "no_faces (objects (doc h0))" using that by (simp add: o0 no_faces_def E_def shape_of_def)
    then have "no_faces obs" unfolding obs_def by (intro no_faces_recompute)
    then show ?thesis using sF by (simp add: face_objects_def o no_faces_filter)
  qed
  have run: "setup_until_geometry e doc0 = Returned () h"
    by (simp add: setup_until_geometry_def h0_def [symmetric] r)
  show ?thesis
    unfolding b_def [symmetric]
    apply (rule exI [of _ h])
    apply (rule exI [of _ F])
    using run fo fi ln l1 l2 k fw all apply (simp add: F_def)
    done
qed

lemma created_append [simp]: "created P (xs @ ys) = created P xs @ created P ys"
  by (simp add: created_def)
lemma created_Cons [simp]: "created P (x # xs) = created_id P x @ created P xs"
  by (simp add: created_def)
lemma created_Nil [simp]: "created P [] = []"
  by (simp add: created_def)
lemma created_attr_calls [simp]: "created P (attr_calls i ps) = []"
  by (induction ps) (auto simp add: attr_calls_def)

lemma created_init_geometry:
  assumes "\<not> P TextDocument" "\<not> P (DocObject ''Part::Cylinder'')" "\<not> P ShapeFeature"
  shows "created P (init_calls doc0 @ geometry_calls e c) = []"
  using assms
  by (simp add: init_calls_def geometry_calls_def cylinder_calls_def downgrade_calls_def
      split: option.splits)

lemma created_fem_calls:
  assumes "st = ''calculix'' \<or> st = ''ccxtools''"
  shows "created (\<lambda>k. k = FemAnalysis) (fem_calls e st a fc fm) = [a]"
    and "created is_solver (fem_calls e st a fc fm) = [a + 1]"
    and "created (\<lambda>k. k = FemMaterialSolid) (fem_calls e st a fc fm) = [a + 2]"
    and "created (\<lambda>k. k = FemConstraintDisplacement) (fem_calls e st a fc fm) = [a + 3]"
    and "created (\<lambda>k. k = FemElementGeometry2D) (fem_calls e st a fc fm) = [a + 4]"
    and "created (\<lambda>k. k = FemMeshGmsh) (fem_calls e st a fc fm) = [a + 5]"
  using assms
  by (auto simp add: fem_calls_def solver_calls_def material_calls_def constraint_calls_def
      thickness_calls_def mesh_calls_def solver_kind_def)

lemma fem_model_members:
  assumes "fem_model st a fc fm h" and "st = ''calculix'' \<or> st = ''ccxtools''"
  shows "members h a is_solver = [a + 1]"
    and "members h a (\<lambda>k. k = FemMaterialSolid) = [a + 2]"
    and "members h a (\<lambda>k. k = FemConstraintDisplacement) = [a + 3]"
    and "members h a (\<lambda>k. k = FemElementGeometry2D) = [a + 4]"
    and "members h a (\<lambda>k. k = FemMeshGmsh) = [a + 5]"
  using assms
  by (auto simp add: fem_model_def members_def has_kind_def solver_kind_def)

lemmas seq_defs = init_calls_def geometry_calls_def cylinder_calls_def downgrade_calls_def
  fem_calls_def solver_calls_def material_calls_def constraint_calls_def thickness_calls_def
  mesh_calls_def

lemma attr_calls_only_SetAttr [simp]:
  "Created k i \<notin> set (attr_calls j ps)"
  "GroupAdd a i \<notin> set (attr_calls j ps)"
  "CreateMesh i \<notin> set (attr_calls j ps)"
  by (auto simp add: attr_calls_def)

lemma solver_kind_other [simp]:
  "solver_kind st \<noteq> FemMaterialSolid" "FemMaterialSolid \<noteq> solver_kind st"
  by (simp_all add: solver_kind_def)

lemma setup_until_geometry_Returned:
  assumes "setup_until_geometry e doc0 = Returned u h"
  shows "wf_host h" and "last_id (doc h) = base_id doc0 + 5" and "DocName (doc h) = doc_name doc0"
    and "calls h = init_calls doc0 @ geometry_calls e (base_id doc0 + 2)"
    and "naming h = auto_name e"
proof -
  define h0 where "h0 = setup_init e doc0"
  note I = setup_init_facts [of e doc0, folded h0_def]
  have c: "Suc (Suc (base_id doc0)) = base_id doc0 + 2" by simp
  from assms have r: "setup_geometry e h0 = Returned u h"
    by (simp add: setup_until_geometry_def h0_def)
  from setup_geometry_cases [OF I(1) I(2), of e, unfolded c] r
  have "wf_host h \<and> last_id (doc h) = base_id doc0 + 2 + 3 \<and> DocName (doc h) = DocName (doc h0)
       \<and> calls h = calls h0 @ geometry_calls e (base_id doc0 + 2) \<and> naming h = naming h0"
    by auto
  then show "wf_host h" and "last_id (doc h) = base_id doc0 + 5" and "DocName (doc h) = doc_name doc0"
    and "calls h = init_calls doc0 @ geometry_calls e (base_id doc0 + 2)"
    and "naming h = auto_name e"
    by (simp_all add: I)
qed

lemma setup_example_Returned:
  assumes R: "setup_example e doc0 st = Returned n h"
  obtains fc fm h1 where "st = ''calculix'' \<or> st = ''ccxtools''"
      "n = doc_name doc0" "DocName (doc h) = doc_name doc0"
      "calls h = init_calls doc0 @ geometry_calls e (base_id doc0 + 2)
                 @ fem_calls e st (base_id doc0 + 6) fc fm"
      "fem_model st (base_id doc0 + 6) fc fm h"
      "setup_until_geometry e doc0 = Returned () h1"
      "begins_as_requested (auto_name e) \<Longrightarrow>
         lookup_name h1 ''Face'' = Some fc \<and> fm = fc \<and> lookup_name h ''Face'' = Some fc"
      "\<And>b g. faces_within b g h1 \<Longrightarrow> faces_within b g h"
      "\<And>j. j \<le> base_id doc0 + 5 \<Longrightarrow> kind_of h j = kind_of h1 j"
      "\<And>j q. j \<le> base_id doc0 + 5 \<Longrightarrow> kind_of h1 j \<noteq> Some (DocObject ''Part::Cylinder'')
          \<Longrightarrow> getprop h j q = getprop h1 j q"
proof (cases rule: setup_example_cases [of e doc0 st])
  case (returned h' fc fm h1)
  from returned(2) R have "n = doc_name doc0" "h' = h" by simp_all
  with returned show ?thesis using that [of fc fm h1] by simp
qed (use R in simp_all)

lemma setup_example_clean_returns:
  assumes p: "expected_naming (auto_name e)" and clean: "no_Face_names (initial_objects doc0)"
    and st: "st = ''calculix'' \<or> st = ''ccxtools''"
  shows "\<exists>h. setup_example e doc0 st = Returned (doc_name doc0) h"
proof -
  from setup_until_geometry_clean [OF p clean]
  obtain h1 where g: "setup_until_geometry e doc0 = Returned () h1"
    and f: "lookup_name h1 ''Face'' = Some (base_id doc0 + 3)"
    by blast
  note G = setup_until_geometry_Returned [OF g]
  from p have b: "begins_as_requested (naming h1)" by (simp add: expected_naming_def G(5))
  from setup_fem_run [OF G(2) G(1) st b f, of e] G(3)
  show ?thesis by (auto simp add: setup_example_def g)
qed

lemma setup_example_clean_unknown:
  assumes p: "expected_naming (auto_name e)" and clean: "no_Face_names (initial_objects doc0)"
    and st: "st \<noteq> ''calculix''" "st \<noteq> ''ccxtools''"
  shows "\<exists>h. setup_example e doc0 st = Raised (UnboundLocalError ''solver_obj'') h
     \<and> calls h = init_calls doc0 @ geometry_calls e (base_id doc0 + 2)
                 @ [Created FemAnalysis (base_id doc0 + 6), unknown_solver_warning st]"
proof -
  from setup_until_geometry_clean [OF p clean]
  obtain h1 where g: "setup_until_geometry e doc0 = Returned () h1"
    by blast
  note G = setup_until_geometry_Returned [OF g]
  have a: "Suc (base_id doc0 + 5) = base_id doc0 + 6" by simp
  from setup_fem_unknown [OF G(1) st, of e, unfolded G(2) a] G(4)
  show ?thesis by (auto simp add: setup_example_def g)
qed

lemma fresh_clean [simp]: "no_Face_names (initial_objects None)" "no_faces (initial_objects None)"
  by (simp_all add: no_Face_names_def no_faces_def initial_objects_def)

lemma created_analysis:
  assumes "st = ''calculix'' \<or> st = ''ccxtools''"
  shows "created (\<lambda>k. k = FemAnalysis)
     (init_calls doc0 @ geometry_calls e c @ fem_calls e st a fc fm) = [a]"
  using created_init_geometry [of "\<lambda>k. k = FemAnalysis" doc0 e c] created_fem_calls(1) [OF assms, of e a fc fm]
  by simp

lemma unknown_solvertype_never_returns:
  assumes "st \<noteq> ''calculix''" "st \<noteq> ''ccxtools''"
  shows "\<not> returned (setup_example e doc0 st)"
  using assms by (cases rule: setup_example_cases [of e doc0 st]) simp_all

lemma setup_steps_in_order:
  assumes "setup_example e doc0 st = Returned n h"
  shows "\<exists>fc fm. n = doc_name doc0 \<and> DocName (doc h) = doc_name doc0
     \<and> calls h = init_calls doc0 @ geometry_calls e (base_id doc0 + 2)
                  @ fem_calls e st (base_id doc0 + 6) fc fm"
  using assms by (rule setup_example_Returned) blast


section \<open>The example hosts\<close>

text \<open>
  The convention of the example host \<open>headless\<close> is one the script can rely on.
\<close>

lemma suffix3_1: "suffix3 (Suc 0) = ''001''"
  by code_simp
lemma suffix3_2: "suffix3 (Suc (Suc 0)) = ''002''"
  by code_simp
lemma suffix3_3: "suffix3 (Suc (Suc (Suc 0))) = ''003''"
  by code_simp

lemma first_free_prefix: "prefix base (first_free used base k fuel)"
  by (induction fuel arbitrary: k) auto

lemma first_free_name_begins: "begins_as_requested first_free_name"
  by (simp add: begins_as_requested_def first_free_name_def first_free_prefix)

lemma two_members_length:
  assumes "x \<in> set xs" "y \<in> set xs" "x \<noteq> y"
  shows "\<exists>k. length xs = Suc (Suc k)"
proof -
  have "card {x, y} \<le> card (set xs)" using assms by (intro card_mono) auto
  also have "\<dots> \<le> length xs" by (rule card_length)
  finally have "2 \<le> length xs" using assms(3) by simp
  then show ?thesis by (cases xs rule: list.exhaust; cases "tl xs") auto
qed

lemma first_free_name_counts: "counts_faces first_free_name"
  unfolding counts_faces_def
proof (intro allI conjI impI)
  fix used :: "string list"
  let ?F = "set (filter (prefix ''Face'') used)"
  have mem: "n \<in> ?F \<longleftrightarrow> n \<in> set used \<and> prefix ''Face'' n" for n by simp
  {
    assume "?F = {}"
    then have "''Face'' \<notin> set used" using mem [of "''Face''"] by simp
    then show "first_free_name used ''Face'' = ''Face''" by (simp add: first_free_name_def)
  }
  {
    assume F: "?F = {''Face''}"
    then have a: "''Face'' \<in> set used" and b: "''Face001'' \<notin> set used"
      using mem [of "''Face''"] mem [of "''Face001''"] by simp_all
    from a obtain k where "length used = Suc k" by (cases used) auto
    with a b show "first_free_name used ''Face'' = ''Face001''"
      by (simp add: first_free_name_def suffix3_1)
  }
  {
    assume F: "?F = {''Face'', ''Face001''}"
    then have a: "''Face'' \<in> set used" and b: "''Face001'' \<in> set used"
      and c: "''Face002'' \<notin> set used"
      using mem [of "''Face''"] mem [of "''Face001''"] mem [of "''Face002''"] by simp_all
    from two_members_length [OF a b] obtain k where "length used = Suc (Suc k)" by auto
    with a b c show "first_free_name used ''Face'' = ''Face002''"
      by (simp add: first_free_name_def suffix3_1 suffix3_2)
  }
qed

lemma first_free_name_expected: "expected_naming first_free_name"
  by (simp add: expected_naming_def first_free_name_begins first_free_name_counts)

lemma headless_expected [simp]:
  "expected_naming (auto_name headless)" "begins_as_requested (auto_name headless)"
  by (simp_all add: headless_def first_free_name_expected first_free_name_begins)

section \<open>The claims\<close>

text \<open>
  C1. The call \<^verbatim>\<open>setup(None, "elmer")\<close> in the host \<open>headless\<close>: the solver type is neither
  \<^verbatim>\<open>"calculix"\<close> nor \<^verbatim>\<open>"ccxtools"\<close>. The warning is printed and no solver object is created,
  but the call does not complete: \<^verbatim>\<open>analysis.addObject(solver_obj)\<close> reads the local
  \<^verbatim>\<open>solver_obj\<close>, which was never bound, and the call ends in an UnboundLocalError right
  after the warning. The requests it issued are listed in full.
\<close>

theorem unknown_solvertype_raises:
  "error_of (setup_example headless None ''elmer'') = Some (UnboundLocalError ''solver_obj'')
   \<and> calls (host_of (setup_example headless None ''elmer'')) =
       [NewDocument, Created TextDocument 1, Created (DocObject ''Part::Cylinder'') 2,
        SetAttr 2 ''Radius'' (VInt 5000), SetAttr 2 ''Height'' (VInt 5000), Recomputed,
        Downgraded 2, Created ShapeFeature 3, Created ShapeFeature 4, Created ShapeFeature 5,
        RemoveObject ''Face001'', RemoveObject ''Face002'', Recomputed,
        Created FemAnalysis 6,
        Printed (Warning (''Not known or not supported solver type: elmer. ''
                          @ ''No solver object was created.'' @ nl))]"
proof -
  from setup_example_clean_unknown [of headless None "''elmer''"]
  obtain h where "setup_example headless None ''elmer'' = Raised (UnboundLocalError ''solver_obj'') h"
    and "calls h = init_calls None @ geometry_calls headless (base_id None + 2)
                 @ [Created FemAnalysis (base_id None + 6), unknown_solver_warning ''elmer'']"
    by auto
  then show ?thesis
    by (simp add: init_calls_def base_id_def geometry_calls_def cylinder_calls_def downgrade_calls_def
        headless_def unknown_solver_warning_def eval_nat_numeral)
qed

text \<open>
  C2. Every call of \<^verbatim>\<open>setup\<close> with \<^verbatim>\<open>solvertype="calculix"\<close> that returns leaves an
  analysis container holding exactly one solver object, and that solver's
  \<^verbatim>\<open>AnalysisType\<close> is \<^verbatim>\<open>"frequency"\<close>. The analysis is the one the call created; the
  document passed in is arbitrary.
\<close>

theorem calculix_one_frequency_solver:
  assumes "setup_example e doc0 ''calculix'' = Returned n h"
  shows "\<exists>a s. created (\<lambda>k. k = FemAnalysis) (calls h) = [a]
     \<and> members h a is_solver = [s]
     \<and> kind_of h s = Some FemSolverCalculix
     \<and> getprop h s ''AnalysisType'' = Some (VStr ''frequency'')"
proof -
  from assms obtain fc fm where st: "''calculix'' = ''calculix'' \<or> ''calculix'' = ''ccxtools''"
    and c: "calls h = init_calls doc0 @ geometry_calls e (base_id doc0 + 2)
                 @ fem_calls e ''calculix'' (base_id doc0 + 6) fc fm"
    and M: "fem_model ''calculix'' (base_id doc0 + 6) fc fm h"
    by (rule setup_example_Returned)
  let ?a = "base_id doc0 + 6"
  have "created (\<lambda>k. k = FemAnalysis) (calls h) = [?a]"
    unfolding c using st by (rule created_analysis)
  moreover have "members h ?a is_solver = [?a + 1]"
    using M st by (rule fem_model_members)
  moreover have "kind_of h (?a + 1) = Some FemSolverCalculix"
    using M by (simp add: fem_model_def solver_kind_def)
  moreover have "getprop h (?a + 1) ''AnalysisType'' = Some (VStr ''frequency'')"
    using M by (simp add: fem_model_def solver_props_def frequency_props_def)
  ultimately show ?thesis by blast
qed

theorem calculix_one_frequency_solver_witness:
  "\<exists>n h a s. setup_example headless None ''calculix'' = Returned n h
     \<and> created (\<lambda>k. k = FemAnalysis) (calls h) = [a]
     \<and> members h a is_solver = [s]
     \<and> kind_of h s = Some FemSolverCalculix
     \<and> getprop h s ''AnalysisType'' = Some (VStr ''frequency'')"
proof -
  from setup_example_clean_returns [of headless None "''calculix''"]
  obtain h where R: "setup_example headless None ''calculix'' = Returned (doc_name None) h"
    by auto
  from calculix_one_frequency_solver [OF R] R show ?thesis by blast
qed

text \<open>
  C3. Every call of \<^verbatim>\<open>setup\<close> with \<^verbatim>\<open>solvertype="ccxtools"\<close>, given or left to its default,
  that returns has created one solver object, of the ccxtools kind, whose \<^verbatim>\<open>WorkingDir\<close> is
  the empty string and whose \<^verbatim>\<open>EigenmodesCount\<close> is 10.
\<close>

theorem ccxtools_solver_workingdir_eigenmodes:
  assumes "solvertype = None \<or> solvertype = Some ''ccxtools''"
    and "setup_call e doc0 solvertype = Returned n h"
  shows "\<exists>s. created is_solver (calls h) = [s]
     \<and> kind_of h s = Some FemSolverCcxTools
     \<and> getprop h s ''WorkingDir'' = Some (VStr [])
     \<and> getprop h s ''EigenmodesCount'' = Some (VInt 10)"
proof -
  from assms have R: "setup_example e doc0 ''ccxtools'' = Returned n h"
    by (auto simp add: setup_call_def)
  then obtain fc fm where st: "''ccxtools'' = ''calculix'' \<or> ''ccxtools'' = ''ccxtools''"
    and c: "calls h = init_calls doc0 @ geometry_calls e (base_id doc0 + 2)
                 @ fem_calls e ''ccxtools'' (base_id doc0 + 6) fc fm"
    and M: "fem_model ''ccxtools'' (base_id doc0 + 6) fc fm h"
    by (rule setup_example_Returned)
  let ?a = "base_id doc0 + 6"
  have "created is_solver (calls h) = [?a + 1]"
    unfolding c
    using created_init_geometry [of is_solver doc0 e "base_id doc0 + 2"] created_fem_calls(2) [OF st, of e ?a fc fm]
    by simp
  moreover have "kind_of h (?a + 1) = Some FemSolverCcxTools"
    using M by (simp add: fem_model_def solver_kind_def)
  moreover have "getprop h (?a + 1) ''WorkingDir'' = Some (VStr [])"
    and "getprop h (?a + 1) ''EigenmodesCount'' = Some (VInt 10)"
    using M by (simp_all add: fem_model_def solver_props_def frequency_props_def)
  ultimately show ?thesis by blast
qed

theorem ccxtools_solver_workingdir_eigenmodes_witness:
  "\<exists>n h s. setup_call headless None None = Returned n h
     \<and> created is_solver (calls h) = [s]
     \<and> kind_of h s = Some FemSolverCcxTools
     \<and> getprop h s ''WorkingDir'' = Some (VStr [])
     \<and> getprop h s ''EigenmodesCount'' = Some (VInt 10)"
proof -
  from setup_example_clean_returns [of headless None "''ccxtools''"]
  obtain h where R: "setup_call headless None None = Returned (doc_name None) h"
    by (auto simp add: setup_call_def)
  from ccxtools_solver_workingdir_eigenmodes [OF _ R] R show ?thesis by blast
qed

text \<open>
  C4, as stated: after the geometry reduction step of every call the document holds exactly
  one face, the two auxiliary faces having been removed under the names \<^verbatim>\<open>Face001\<close> and
  \<^verbatim>\<open>Face002\<close>. It fails in two ways. On a document that holds a text object named
  \<^verbatim>\<open>Face001\<close>, in the host \<open>headless\<close>, the step returns, but the removal by name took the
  text object and one cap, and two of the three faces the downgrade created are left: the
  cap named \<^verbatim>\<open>Face003\<close> and the side named \<^verbatim>\<open>Face\<close>. On a new document, in a host that names
  a second object of the same name by an appended underscore, the step does not complete:
  no object is named \<^verbatim>\<open>Face001\<close> and the removal raises a lookup failure.
\<close>

theorem geometry_reduction_two_faces_left:
  "returned (setup_until_geometry headless (Some memo_doc))
   \<and> map (\<lambda>ob. (Id ob, Name ob, shape_of ob))
         (face_objects (host_of (setup_until_geometry headless (Some memo_doc))))
       = [(6, ''Face003'', CircleFace 5000), (4, ''Face'', CylinderSide 5000 5000)]
   \<and> downgrade_calls 3 = [Downgraded 3, Created ShapeFeature 4, Created ShapeFeature 5,
         Created ShapeFeature 6]
   \<and> (\<exists>pre post. calls (host_of (setup_until_geometry headless (Some memo_doc)))
          = pre @ downgrade_calls 3 @ post)
   \<and> kind_of (host_of (setup_until_geometry headless (Some memo_doc))) 1 = None
   \<and> error_of (setup_until_geometry (headless\<lparr>auto_name := underscore_name\<rparr>) None)
       = Some (LookupFailure ''Face001'')"
proof -
  define h0 where "h0 = setup_init headless (Some memo_doc)"
  note I = setup_init_facts [of headless "Some memo_doc", folded h0_def]
  have b: "base_id (Some memo_doc) = 1" by (simp add: base_id_def memo_doc_def)
  have o0: "objects (doc h0) =
     [\<lparr>Id = 2, Name = ''Explanation_Report'', Kind = TextDocument,
       Props = [(''Text'', VStr (get_explanation []))]\<rparr>,
      \<lparr>Id = 1, Name = ''Face001'', Kind = TextDocument, Props = [(''Text'', VStr ''front'')]\<rparr>]"
    by (simp add: h0_def objects_setup_init initial_objects_def base_id_def memo_doc_def
        first_free_name_def headless_def)
  have n0: "naming h0 = first_free_name" by (simp add: I headless_def)
  have l0: "last_id (doc h0) = 2" by (simp add: I b)
  define obs6 where "obs6 =
     [\<lparr>Id = 6, Name = ''Face003'', Kind = ShapeFeature, Props = [(''Shape'', VShape (CircleFace 5000))]\<rparr>,
      \<lparr>Id = 5, Name = ''Face002'', Kind = ShapeFeature, Props = [(''Shape'', VShape (CircleFace 5000))]\<rparr>,
      \<lparr>Id = 4, Name = ''Face'', Kind = ShapeFeature,
        Props = [(''Shape'', VShape (CylinderSide 5000 5000))]\<rparr>,
      \<lparr>Id = 2, Name = ''Explanation_Report'', Kind = TextDocument,
        Props = [(''Text'', VStr (get_explanation []))]\<rparr>,
      \<lparr>Id = 1, Name = ''Face001'', Kind = TextDocument, Props = [(''Text'', VStr ''front'')]\<rparr>]"
  have e1: "''Cylinder'' = naming h0 (map Name (objects (doc h0))) ''Cylinder''"
    by (simp add: n0 o0 first_free_name_def)
  have e2: "''Face'' = naming h0 (''Cylinder'' # map Name (objects (doc h0))) ''Face''"
    by (simp add: n0 o0 first_free_name_def)
  have e3: "''Face002'' = naming h0 (''Face'' # ''Cylinder'' # map Name (objects (doc h0))) ''Face''"
    by (simp add: n0 o0 first_free_name_def suffix3_1 suffix3_2)
  have e4: "''Face003'' = naming h0
      (''Face002'' # ''Face'' # ''Cylinder'' # map Name (objects (doc h0))) ''Face''"
    by (simp add: n0 o0 first_free_name_def suffix3_1 suffix3_2 suffix3_3)
  have e5: "obs6 =
         \<lparr>Id = Suc (Suc (Suc (Suc 2))), Name = ''Face003'', Kind = ShapeFeature,
           Props = [(''Shape'', VShape (CircleFace 5000))]\<rparr>
         # \<lparr>Id = Suc (Suc (Suc 2)), Name = ''Face002'', Kind = ShapeFeature,
             Props = [(''Shape'', VShape (CircleFace 5000))]\<rparr>
         # \<lparr>Id = Suc (Suc 2), Name = ''Face'', Kind = ShapeFeature,
             Props = [(''Shape'', VShape (CylinderSide 5000 5000))]\<rparr>
         # map recompute_obj (objects (doc h0))"
    by (simp add: obs6_def o0)
  have i1: "''Face001'' \<in> Name ` set obs6" by (simp add: obs6_def)
  have i2: "''Face002'' \<in> Name ` set (filter (\<lambda>ob. Name ob \<noteq> ''Face001'') obs6)"
    by (simp add: obs6_def)
  from setup_geometry_objects(3) [OF I(1) l0 e1 e2 e3 e4 e5 i1 i2, of headless]
  obtain h1 where r1: "setup_geometry headless h0 = Returned () h1"
    and o1: "objects (doc h1) =
      [\<lparr>Id = 6, Name = ''Face003'', Kind = ShapeFeature, Props = [(''Shape'', VShape (CircleFace 5000))]\<rparr>,
       \<lparr>Id = 4, Name = ''Face'', Kind = ShapeFeature,
         Props = [(''Shape'', VShape (CylinderSide 5000 5000))]\<rparr>,
       \<lparr>Id = 2, Name = ''Explanation_Report'', Kind = TextDocument,
         Props = [(''Text'', VStr (get_explanation []))]\<rparr>]"
    by (auto simp add: obs6_def)
  have g: "setup_until_geometry headless (Some memo_doc) = Returned () h1"
    by (simp add: setup_until_geometry_def h0_def [symmetric] r1)
  note G = setup_until_geometry_Returned [OF g]
  have A: "map (\<lambda>ob. (Id ob, Name ob, shape_of ob)) (face_objects h1)
       = [(6, ''Face003'', CircleFace 5000), (4, ''Face'', CylinderSide 5000 5000)]"
    by (simp add: face_objects_def o1 shape_of_def)
  have B: "downgrade_calls 3 = [Downgraded 3, Created ShapeFeature 4, Created ShapeFeature 5,
         Created ShapeFeature 6]"
    by (simp add: downgrade_calls_def)
  have C: "calls h1 = (init_calls (Some memo_doc) @ cylinder_calls headless 3) @ downgrade_calls 3
       @ [RemoveObject ''Face001'', RemoveObject ''Face002'', Recomputed]"
    by (simp add: G(4) b geometry_calls_def eval_nat_numeral)
  have D: "kind_of h1 1 = None" by (simp add: kind_of_def find_id_def o1)
  let ?e = "headless\<lparr>auto_name := underscore_name\<rparr>"
  define k0 where "k0 = setup_init ?e None"
  note J = setup_init_facts [of ?e None, folded k0_def]
  have p0: "objects (doc k0) =
     [\<lparr>Id = 1, Name = ''Explanation_Report'', Kind = TextDocument,
       Props = [(''Text'', VStr (get_explanation []))]\<rparr>]"
    by (simp add: k0_def objects_setup_init initial_objects_def base_id_def
        underscore_name_def headless_def)
  have m0: "naming k0 = underscore_name" by (simp add: J)
  have q0: "last_id (doc k0) = 1" by (simp add: J base_id_def)
  define obs6' where "obs6' =
     [\<lparr>Id = 5, Name = ''Face__'', Kind = ShapeFeature, Props = [(''Shape'', VShape (CircleFace 5000))]\<rparr>,
      \<lparr>Id = 4, Name = ''Face_'', Kind = ShapeFeature, Props = [(''Shape'', VShape (CircleFace 5000))]\<rparr>,
      \<lparr>Id = 3, Name = ''Face'', Kind = ShapeFeature,
        Props = [(''Shape'', VShape (CylinderSide 5000 5000))]\<rparr>,
      \<lparr>Id = 1, Name = ''Explanation_Report'', Kind = TextDocument,
        Props = [(''Text'', VStr (get_explanation []))]\<rparr>]"
  have u1: "''Cylinder'' = naming k0 (map Name (objects (doc k0))) ''Cylinder''"
    by (simp add: m0 p0 underscore_name_def)
  have u2: "''Face'' = naming k0 (''Cylinder'' # map Name (objects (doc k0))) ''Face''"
    by (simp add: m0 p0 underscore_name_def)
  have u3: "''Face_'' = naming k0 (''Face'' # ''Cylinder'' # map Name (objects (doc k0))) ''Face''"
    by (simp add: m0 p0 underscore_name_def)
  have u4: "''Face__'' = naming k0
      (''Face_'' # ''Face'' # ''Cylinder'' # map Name (objects (doc k0))) ''Face''"
    by (simp add: m0 p0 underscore_name_def)
  have u5: "obs6' =
         \<lparr>Id = Suc (Suc (Suc (Suc 1))), Name = ''Face__'', Kind = ShapeFeature,
           Props = [(''Shape'', VShape (CircleFace 5000))]\<rparr>
         # \<lparr>Id = Suc (Suc (Suc 1)), Name = ''Face_'', Kind = ShapeFeature,
             Props = [(''Shape'', VShape (CircleFace 5000))]\<rparr>
         # \<lparr>Id = Suc (Suc 1), Name = ''Face'', Kind = ShapeFeature,
             Props = [(''Shape'', VShape (CylinderSide 5000 5000))]\<rparr>
         # map recompute_obj (objects (doc k0))"
    by (simp add: obs6'_def p0)
  have j1: "''Face001'' \<notin> Name ` set obs6'" by (simp add: obs6'_def)
  from setup_geometry_objects(1) [OF J(1) q0 u1 u2 u3 u4 u5 j1, of ?e]
  have E: "error_of (setup_until_geometry ?e None) = Some (LookupFailure ''Face001'')"
    by (simp add: setup_until_geometry_def k0_def)
  have c1: "calls (host_of (setup_until_geometry headless (Some memo_doc)))
       = (init_calls (Some memo_doc) @ cylinder_calls headless 3) @ downgrade_calls 3
       @ [RemoveObject ''Face001'', RemoveObject ''Face002'', Recomputed]"
    by (simp only: g host_of.simps C)
  have c2: "\<exists>pre post. calls (host_of (setup_until_geometry headless (Some memo_doc)))
          = pre @ downgrade_calls 3 @ post"
    by (intro exI) (rule c1)
  have c3: "returned (setup_until_geometry headless (Some memo_doc))" by (simp add: g)
  have c4: "map (\<lambda>ob. (Id ob, Name ob, shape_of ob))
         (face_objects (host_of (setup_until_geometry headless (Some memo_doc))))
       = [(6, ''Face003'', CircleFace 5000), (4, ''Face'', CylinderSide 5000 5000)]"
    by (simp only: g host_of.simps A)
  have c5: "kind_of (host_of (setup_until_geometry headless (Some memo_doc))) 1 = None"
    by (simp only: g host_of.simps D)
  show ?thesis by (intro conjI c3 c4 B c2 c5 E)
qed

text \<open>
  C4, amended. In a host that names new objects by the convention the script relies on
  (the name of a new object begins with the name requested for it, and the first three
  objects requested as \<^verbatim>\<open>Face\<close> in a document with no such names are named \<^verbatim>\<open>Face\<close>,
  \<^verbatim>\<open>Face001\<close> and \<^verbatim>\<open>Face002\<close>), for every call on a document that holds no object whose
  name begins with \<^verbatim>\<open>Face\<close> (a new document holds none), the geometry reduction step returns
  and leaves exactly one of the faces it created in the document: the object named
  \<^verbatim>\<open>Face\<close>, the side of the cylinder. The downgrade operation was requested on the cylinder
  and created three faces, the solid is gone, and the two faces named \<^verbatim>\<open>Face001\<close> and
  \<^verbatim>\<open>Face002\<close> were removed by name. When the document held no face before the call, that
  object is the only face of the document.
\<close>

theorem geometry_reduction_one_face:
  assumes "expected_naming (auto_name e)" and "no_Face_names (initial_objects doc0)"
  shows "\<exists>h ob. setup_until_geometry e doc0 = Returned () h
     \<and> new_faces (base_id doc0) h = [ob]
     \<and> Name ob = ''Face'' \<and> Kind ob = ShapeFeature \<and> shape_of ob = CylinderSide 5000 5000
     \<and> calls h = init_calls doc0 @ cylinder_calls e (base_id doc0 + 2)
          @ downgrade_calls (base_id doc0 + 2)
          @ [RemoveObject ''Face001'', RemoveObject ''Face002'', Recomputed]
     \<and> kind_of h (base_id doc0 + 2) = None
     \<and> lookup_name h ''Face001'' = None \<and> lookup_name h ''Face002'' = None
     \<and> (no_faces (initial_objects doc0) \<longrightarrow> face_objects h = [ob])"
proof -
  from setup_until_geometry_clean [OF assms]
  obtain h ob where g: "setup_until_geometry e doc0 = Returned () h"
    and F: "new_faces (base_id doc0) h = [ob]" "Name ob = ''Face''" "Kind ob = ShapeFeature"
      "Props ob = [(''Shape'', VShape (CylinderSide 5000 5000))]"
      "kind_of h (base_id doc0 + 2) = None"
      "lookup_name h ''Face001'' = None" "lookup_name h ''Face002'' = None"
      "no_faces (initial_objects doc0) \<longrightarrow> face_objects h = [ob]"
    by blast
  note G = setup_until_geometry_Returned [OF g]
  have "shape_of ob = CylinderSide 5000 5000" by (simp add: shape_of_def F(4))
  with g F G(4) show ?thesis by (simp add: geometry_calls_def)
qed

theorem geometry_reduction_one_face_witness:
  "\<exists>h ob. setup_until_geometry headless None = Returned () h
     \<and> new_faces 0 h = [ob] \<and> face_objects h = [ob]
     \<and> Name ob = ''Face'' \<and> Kind ob = ShapeFeature \<and> shape_of ob = CylinderSide 5000 5000
     \<and> calls h = [NewDocument, Created TextDocument 1, Created (DocObject ''Part::Cylinder'') 2,
          SetAttr 2 ''Radius'' (VInt 5000), SetAttr 2 ''Height'' (VInt 5000), Recomputed,
          Downgraded 2, Created ShapeFeature 3, Created ShapeFeature 4, Created ShapeFeature 5,
          RemoveObject ''Face001'', RemoveObject ''Face002'', Recomputed]
     \<and> kind_of h 2 = None
     \<and> lookup_name h ''Face001'' = None \<and> lookup_name h ''Face002'' = None"
  using geometry_reduction_one_face [of headless None]
  by (simp add: initial_objects_def init_calls_def base_id_def cylinder_calls_def no_Face_names_def
      no_faces_def downgrade_calls_def eval_nat_numeral)
    (auto simp add: headless_def)




text \<open>
  C6. In every call of \<^verbatim>\<open>setup\<close> that returns, the analysis holds one material object, and
  its property mapping has \<^verbatim>\<open>YoungsModulus\<close> \<^verbatim>\<open>"210 GPa"\<close>, \<^verbatim>\<open>PoissonRatio\<close> \<^verbatim>\<open>"0.30"\<close> and
  \<^verbatim>\<open>Density\<close> \<^verbatim>\<open>"7900 kg/m^3"\<close>, each a string that carries its unit.
\<close>

theorem material_carries_steel_values:
  assumes "setup_example e doc0 st = Returned n h"
  shows "\<exists>a m. created (\<lambda>k. k = FemAnalysis) (calls h) = [a]
     \<and> members h a (\<lambda>k. k = FemMaterialSolid) = [m]
     \<and> material_value h m ''YoungsModulus'' = Some ''210 GPa''
     \<and> material_value h m ''PoissonRatio'' = Some ''0.30''
     \<and> material_value h m ''Density'' = Some ''7900 kg/m^3''"
proof -
  from assms obtain fc fm where st: "st = ''calculix'' \<or> st = ''ccxtools''"
    and c: "calls h = init_calls doc0 @ geometry_calls e (base_id doc0 + 2)
                 @ fem_calls e st (base_id doc0 + 6) fc fm"
    and M: "fem_model st (base_id doc0 + 6) fc fm h"
    by (rule setup_example_Returned)
  let ?a = "base_id doc0 + 6"
  have "created (\<lambda>k. k = FemAnalysis) (calls h) = [?a]"
    unfolding c using st by (rule created_analysis)
  moreover have "members h ?a (\<lambda>k. k = FemMaterialSolid) = [?a + 2]"
    using M st by (rule fem_model_members)
  moreover have "material_value h (?a + 2) ''YoungsModulus'' = Some ''210 GPa''"
    and "material_value h (?a + 2) ''PoissonRatio'' = Some ''0.30''"
    and "material_value h (?a + 2) ''Density'' = Some ''7900 kg/m^3''"
    using M by (simp_all add: fem_model_def material_value_def material_props_def)
  ultimately show ?thesis by blast
qed

theorem material_carries_steel_values_witness:
  "\<exists>n h a m. setup_example headless None ''ccxtools'' = Returned n h
     \<and> created (\<lambda>k. k = FemAnalysis) (calls h) = [a]
     \<and> members h a (\<lambda>k. k = FemMaterialSolid) = [m]
     \<and> material_value h m ''YoungsModulus'' = Some ''210 GPa''
     \<and> material_value h m ''PoissonRatio'' = Some ''0.30''
     \<and> material_value h m ''Density'' = Some ''7900 kg/m^3''"
proof -
  from setup_example_clean_returns [of headless None "''ccxtools''"]
  obtain h where R: "setup_example headless None ''ccxtools'' = Returned (doc_name None) h"
    by auto
  from material_carries_steel_values [OF R] R show ?thesis by blast
qed

text \<open>
  C7. The call \<^verbatim>\<open>setup(None, "z88")\<close> in the host \<open>headless\<close> does not run the steps in the
  order claimed up to the return: it does not return, and no material, displacement
  constraint, shell thickness or mesh object is ever created; the last request it issues is
  the warning of the solver step.
\<close>

theorem unknown_solvertype_stops_at_solver_step:
  "\<not> returned (setup_example headless None ''z88'')
   \<and> created (\<lambda>k. k = FemMaterialSolid \<or> k = FemConstraintDisplacement
                   \<or> k = FemElementGeometry2D \<or> k = FemMeshGmsh)
        (calls (host_of (setup_example headless None ''z88''))) = []
   \<and> last (calls (host_of (setup_example headless None ''z88''))) = unknown_solver_warning ''z88''"
proof -
  from setup_example_clean_unknown [of headless None "''z88''"]
  obtain h where "setup_example headless None ''z88'' = Raised (UnboundLocalError ''solver_obj'') h"
    and "calls h = init_calls None @ geometry_calls headless (base_id None + 2)
                 @ [Created FemAnalysis (base_id None + 6), unknown_solver_warning ''z88'']"
    by auto
  then show ?thesis
    by (simp add: init_calls_def base_id_def geometry_calls_def cylinder_calls_def downgrade_calls_def
        headless_def unknown_solver_warning_def)
qed

text \<open>
  C8. In every call of \<^verbatim>\<open>setup\<close> that calls the external mesher, whatever the document,
  the solver type and the status text the mesher returns, the next request is the printing
  of exactly that text to the console.
\<close>

theorem mesh_status_always_printed:
  assumes "CreateMesh g \<in> set (calls (host_of (setup_example e doc0 st)))"
  shows "\<exists>pre post. calls (host_of (setup_example e doc0 st)) =
           pre @ [CreateMesh g, Printed (Message (create_mesh_status e))] @ post"
proof (cases rule: setup_example_cases [of e doc0 st])
  case (returned h fc fm h1)
  let ?a = "base_id doc0 + 6"
  from assms returned(2,4) have g: "g = ?a + 5"
    by (auto simp add: seq_defs split: option.splits if_splits)
  have c1: "calls (host_of (setup_example e doc0 st)) =
      (init_calls doc0 @ geometry_calls e (base_id doc0 + 2) @ Created FemAnalysis ?a
         # solver_calls st ?a (?a + 1) @ material_calls ?a (?a + 2) @ constraint_calls ?a (?a + 3) fc
         @ thickness_calls ?a (?a + 4) @ Created FemMeshGmsh g # attr_calls g (mesh_props fm))
      @ [CreateMesh g, Printed (Message (create_mesh_status e))]
      @ [GroupAdd ?a g, Recomputed]"
    unfolding returned(2) host_of.simps returned(4) g by (simp add: fem_calls_def mesh_calls_def)
  show ?thesis
    by (intro exI) (rule c1)
qed (use assms in \<open>auto simp add: seq_defs unknown_solver_warning_def split: option.splits if_splits\<close>)

theorem mesh_status_always_printed_witness:
  "CreateMesh 11 \<in> set (calls (host_of (setup_example
      (headless\<lparr>create_mesh_status := ''Error: mesh generation failed''\<rparr>) None ''ccxtools'')))
   \<and> (\<exists>pre post. calls (host_of (setup_example
      (headless\<lparr>create_mesh_status := ''Error: mesh generation failed''\<rparr>) None ''ccxtools'')) =
           pre @ [CreateMesh 11, Printed (Message ''Error: mesh generation failed'')] @ post)"
proof -
  let ?e = "headless\<lparr>create_mesh_status := ''Error: mesh generation failed''\<rparr>"
  from setup_example_clean_returns [of ?e None "''ccxtools''"]
  obtain h where R: "setup_example ?e None ''ccxtools'' = Returned (doc_name None) h"
    by auto
  from setup_steps_in_order [OF R]
  have m: "CreateMesh 11 \<in> set (calls (host_of (setup_example ?e None ''ccxtools'')))"
    by (auto simp add: R fem_calls_def mesh_calls_def base_id_def)
  from mesh_status_always_printed [OF m] m show ?thesis by simp
qed

text \<open>
  C9. In every call of \<^verbatim>\<open>setup\<close> that returns, the analysis holds one shell-thickness
  object, the only one the call created, and its thickness is the fixed value 10.
\<close>

theorem thickness_is_ten:
  assumes "setup_example e doc0 st = Returned n h"
  shows "\<exists>a t. created (\<lambda>k. k = FemAnalysis) (calls h) = [a]
     \<and> members h a (\<lambda>k. k = FemElementGeometry2D) = [t]
     \<and> created (\<lambda>k. k = FemElementGeometry2D) (calls h) = [t]
     \<and> getprop h t ''Thickness'' = Some (VInt 10)"
proof -
  from assms obtain fc fm where st: "st = ''calculix'' \<or> st = ''ccxtools''"
    and c: "calls h = init_calls doc0 @ geometry_calls e (base_id doc0 + 2)
                 @ fem_calls e st (base_id doc0 + 6) fc fm"
    and M: "fem_model st (base_id doc0 + 6) fc fm h"
    by (rule setup_example_Returned)
  let ?a = "base_id doc0 + 6"
  have "created (\<lambda>k. k = FemAnalysis) (calls h) = [?a]"
    unfolding c using st by (rule created_analysis)
  moreover have "members h ?a (\<lambda>k. k = FemElementGeometry2D) = [?a + 4]"
    using M st by (rule fem_model_members)
  moreover have "created (\<lambda>k. k = FemElementGeometry2D) (calls h) = [?a + 4]"
    unfolding c
    using created_init_geometry [of "\<lambda>k. k = FemElementGeometry2D" doc0 e "base_id doc0 + 2"]
      created_fem_calls(5) [OF st, of e ?a fc fm]
    by simp
  moreover have "getprop h (?a + 4) ''Thickness'' = Some (VInt 10)"
    using M by (simp add: fem_model_def)
  ultimately show ?thesis by blast
qed

theorem thickness_is_ten_witness:
  "\<exists>n h a t. setup_example headless None ''calculix'' = Returned n h
     \<and> created (\<lambda>k. k = FemAnalysis) (calls h) = [a]
     \<and> members h a (\<lambda>k. k = FemElementGeometry2D) = [t]
     \<and> created (\<lambda>k. k = FemElementGeometry2D) (calls h) = [t]
     \<and> getprop h t ''Thickness'' = Some (VInt 10)"
proof -
  from setup_example_clean_returns [of headless None "''calculix''"]
  obtain h where R: "setup_example headless None ''calculix'' = Returned (doc_name None) h"
    by auto
  from thickness_is_ten [OF R] R show ?thesis by blast
qed

text \<open>
  C10. In every call of \<^verbatim>\<open>setup\<close> that creates a material object, whether the call later
  returns or raises, \<^verbatim>\<open>analysis.addObject\<close> is requested exactly twice with that object:
  the first request directly follows its creation, the second directly follows the
  assignment of its property mapping, and both name the analysis the call created.
\<close>

theorem material_attached_twice:
  assumes "Created FemMaterialSolid m \<in> set (calls (host_of (setup_example e doc0 st)))"
  shows "\<exists>a pre post. calls (host_of (setup_example e doc0 st)) =
           pre @ [Created FemMaterialSolid m, GroupAdd a m,
                  SetAttr m ''Material'' (VDict [(''Name'', ''Steel-Generic''),
                     (''YoungsModulus'', ''210 GPa''), (''PoissonRatio'', ''0.30''),
                     (''Density'', ''7900 kg/m^3'')]),
                  GroupAdd a m] @ post
     \<and> created (\<lambda>k. k = FemAnalysis) pre = [a]
     \<and> GroupAdd a m \<notin> set pre \<and> GroupAdd a m \<notin> set post"
proof (cases rule: setup_example_cases [of e doc0 st])
  case (no_Face h)
  let ?a = "base_id doc0 + 6"
  let ?pre = "init_calls doc0 @ geometry_calls e (base_id doc0 + 2) @ Created FemAnalysis ?a
         # solver_calls st ?a (?a + 1)"
  let ?post = "[Created FemConstraintDisplacement (?a + 3)]"
  from assms no_Face have m: "m = ?a + 2"
    by (auto simp add: seq_defs split: option.splits if_splits)
  have c1: "calls (host_of (setup_example e doc0 st)) =
                  ?pre @ [Created FemMaterialSolid m, GroupAdd ?a m,
                  SetAttr m ''Material'' (VDict [(''Name'', ''Steel-Generic''),
                     (''YoungsModulus'', ''210 GPa''), (''PoissonRatio'', ''0.30''),
                     (''Density'', ''7900 kg/m^3'')]),
                  GroupAdd ?a m] @ ?post"
    unfolding no_Face(2) host_of.simps no_Face(3) m
    by (simp add: material_calls_def attr_calls_def material_props_def)
  have c2: "created (\<lambda>k. k = FemAnalysis) ?pre = [?a]"
    using created_init_geometry [of "\<lambda>k. k = FemAnalysis" doc0 e "base_id doc0 + 2"] no_Face(1)
    by (auto simp add: solver_calls_def solver_kind_def)
  have c3: "GroupAdd ?a m \<notin> set ?pre"
    by (auto simp add: m seq_defs split: option.splits)
  have c4: "GroupAdd ?a m \<notin> set ?post"
    by simp
  show ?thesis
    by (rule exI [of _ ?a], rule exI [of _ ?pre], rule exI [of _ ?post]) (intro conjI c1 c2 c3 c4)
next
  case (no_Face_mesh h fc)
  let ?a = "base_id doc0 + 6"
  let ?pre = "init_calls doc0 @ geometry_calls e (base_id doc0 + 2) @ Created FemAnalysis ?a
         # solver_calls st ?a (?a + 1)"
  let ?post = "constraint_calls ?a (?a + 3) fc @ thickness_calls ?a (?a + 4)
         @ [Created FemMeshGmsh (?a + 5)]"
  from assms no_Face_mesh(1,2,3) have m: "m = ?a + 2"
    by (auto simp add: seq_defs split: option.splits if_splits)
  have c1: "calls (host_of (setup_example e doc0 st)) =
                  ?pre @ [Created FemMaterialSolid m, GroupAdd ?a m,
                  SetAttr m ''Material'' (VDict [(''Name'', ''Steel-Generic''),
                     (''YoungsModulus'', ''210 GPa''), (''PoissonRatio'', ''0.30''),
                     (''Density'', ''7900 kg/m^3'')]),
                  GroupAdd ?a m] @ ?post"
    unfolding no_Face_mesh(2) host_of.simps no_Face_mesh(3) m
    by (simp add: material_calls_def attr_calls_def material_props_def)
  have c2: "created (\<lambda>k. k = FemAnalysis) ?pre = [?a]"
    using created_init_geometry [of "\<lambda>k. k = FemAnalysis" doc0 e "base_id doc0 + 2"] no_Face_mesh(1)
    by (auto simp add: solver_calls_def solver_kind_def)
  have c3: "GroupAdd ?a m \<notin> set ?pre"
    by (auto simp add: m seq_defs split: option.splits)
  have c4: "GroupAdd ?a m \<notin> set ?post"
    by (auto simp add: m seq_defs split: option.splits)
  show ?thesis
    by (rule exI [of _ ?a], rule exI [of _ ?pre], rule exI [of _ ?post]) (intro conjI c1 c2 c3 c4)
next
  case (returned h fc fm h1)
  let ?a = "base_id doc0 + 6"
  let ?pre = "init_calls doc0 @ geometry_calls e (base_id doc0 + 2) @ Created FemAnalysis ?a
         # solver_calls st ?a (?a + 1)"
  let ?post = "constraint_calls ?a (?a + 3) fc @ thickness_calls ?a (?a + 4)
         @ mesh_calls e ?a (?a + 5) fm @ [Recomputed]"
  from assms returned(1,2,4) have m: "m = ?a + 2"
    by (auto simp add: seq_defs split: option.splits if_splits)
  have c1: "calls (host_of (setup_example e doc0 st)) =
                  ?pre @ [Created FemMaterialSolid m, GroupAdd ?a m,
                  SetAttr m ''Material'' (VDict [(''Name'', ''Steel-Generic''),
                     (''YoungsModulus'', ''210 GPa''), (''PoissonRatio'', ''0.30''),
                     (''Density'', ''7900 kg/m^3'')]),
                  GroupAdd ?a m] @ ?post"
    unfolding returned(2) host_of.simps returned(4) m
    by (simp add: fem_calls_def material_calls_def attr_calls_def material_props_def)
  have c2: "created (\<lambda>k. k = FemAnalysis) ?pre = [?a]"
    using created_init_geometry [of "\<lambda>k. k = FemAnalysis" doc0 e "base_id doc0 + 2"] returned(1)
    by (auto simp add: solver_calls_def solver_kind_def)
  have c3: "GroupAdd ?a m \<notin> set ?pre"
    by (auto simp add: m seq_defs split: option.splits)
  have c4: "GroupAdd ?a m \<notin> set ?post"
    by (auto simp add: m seq_defs split: option.splits)
  show ?thesis
    by (rule exI [of _ ?a], rule exI [of _ ?pre], rule exI [of _ ?post]) (intro conjI c1 c2 c3 c4)
qed (use assms in \<open>auto simp add: seq_defs unknown_solver_warning_def split: option.splits if_splits\<close>)

theorem material_attached_twice_witness:
  "Created FemMaterialSolid 8 \<in> set (calls (host_of (setup_example headless None ''calculix'')))
   \<and> (\<exists>a pre post. calls (host_of (setup_example headless None ''calculix'')) =
           pre @ [Created FemMaterialSolid 8, GroupAdd a 8,
                  SetAttr 8 ''Material'' (VDict [(''Name'', ''Steel-Generic''),
                     (''YoungsModulus'', ''210 GPa''), (''PoissonRatio'', ''0.30''),
                     (''Density'', ''7900 kg/m^3'')]),
                  GroupAdd a 8] @ post
     \<and> created (\<lambda>k. k = FemAnalysis) pre = [a]
     \<and> GroupAdd a 8 \<notin> set pre \<and> GroupAdd a 8 \<notin> set post)"
proof -
  from setup_example_clean_returns [of headless None "''calculix''"]
  obtain h where R: "setup_example headless None ''calculix'' = Returned (doc_name None) h"
    by auto
  from setup_steps_in_order [OF R]
  have m: "Created FemMaterialSolid 8 \<in> set (calls (host_of (setup_example headless None ''calculix'')))"
    by (auto simp add: R fem_calls_def material_calls_def base_id_def)
  from material_attached_twice [OF m] m show ?thesis by simp
qed

end
